theory Spec2Isabelle
  imports Complex_Main
begin

section \<open>Values, errors and library calls\<close>

text \<open>
  The script \<^verbatim>\<open>scripts/summarization.py\<close> is glue between a tokenizer, a pretrained
  sequence-to-sequence model, a ROUGE scorer and a trainer.  Token identifiers are Python
  integers (\<^typ>\<open>int\<close>); a 1-D tensor of tokens is a list, a 2-D tensor is the list of
  its rows.  Python floats and floating tensors are read as \<^typ>\<open>real\<close>: the
  arithmetic of the script is modelled exactly, rounding is not.

  Every call that can raise returns a sum: \<open>Inl\<close> is the exception.  An exception of
  one of the libraries is an arbitrary value of type \<open>'e\<close>; the script's own failures
  are the named constructors.
\<close>

datatype 'e error =
    ValueError
  | IndexError
  | KeyError
  | ZeroDivisionError
  | RuntimeError
  | Framework 'e

definition call :: "'e + 'a \<Rightarrow> 'e error + 'a" where
  "call r = (case r of Inl e \<Rightarrow> Inl (Framework e) | Inr v \<Rightarrow> Inr v)"

section \<open>SummarizationDataset\<close>

record entry =
  article :: string
  abstract :: string

text \<open>
  The tokenizer object.  \<open>encode text n\<close> is the call
  \<^verbatim>\<open>tokenizer.encode(text, truncation=True, max_length=n)\<close>, \<open>batch_decode\<close> the call
  \<^verbatim>\<open>tokenizer.batch_decode(ids, skip_special_tokens=True)\<close>.  The tokenizer has a pad
  token, whose identifier is an integer.
\<close>

record 'e tokenizer_obj =
  encode :: "string \<Rightarrow> int \<Rightarrow> 'e + int list"
  batch_decode :: "int list list \<Rightarrow> 'e + string list"
  pad_token_id :: int

text \<open>
  The fields of \<^verbatim>\<open>SummarizationDataset\<close>; \<open>ds_\<close> tells them from the fields of the
  same names of the command-line arguments.
\<close>

record 'e summarization_dataset =
  hf_dataset :: "entry list"
  ds_tokenizer :: "'e tokenizer_obj"
  ds_max_input_len :: int
  ds_max_output_len :: int

definition len_dataset :: "'e summarization_dataset \<Rightarrow> nat" where
  "len_dataset self = length (hf_dataset self)"

text \<open>
  \<^verbatim>\<open>__getitem__\<close>.  Indexing the dataset follows Python: a negative index counts from
  the end, and an index outside the dataset raises \<open>IndexError\<close>.
\<close>

definition getitem :: "'e summarization_dataset \<Rightarrow> int \<Rightarrow> 'e error + int list \<times> int list" where
  "getitem self idx =
     (let n = int (length (hf_dataset self));
          i = (if idx < 0 then n + idx else idx)
      in if i < 0 \<or> n \<le> i then Inl IndexError
         else
           (let entry = hf_dataset self ! nat i in
            case call (encode (ds_tokenizer self) (article entry) (ds_max_input_len self)) of
              Inl e \<Rightarrow> Inl e
            | Inr input_ids \<Rightarrow>
                (case call (encode (ds_tokenizer self) (abstract entry) (ds_max_output_len self)) of
                   Inl e \<Rightarrow> Inl e
                 | Inr output_ids \<Rightarrow> Inr (input_ids, output_ids))))"

text \<open>
  Modelled from the spec: \<^verbatim>\<open>torch.nn.utils.rnn.pad_sequence\<close> with
  \<^verbatim>\<open>batch_first=True\<close> is a library function, not part of the sources.  The spec words
  it as ``right-pads variable-length token sequences within a batch to a common length
  using a fixed pad value''; the common length is the longest sequence's, and an empty
  list of sequences is refused.
\<close>

definition max_len_of :: "'a list list \<Rightarrow> nat" where
  "max_len_of sequences = foldr max (map length sequences) 0"

definition pad_sequence :: "int list list \<Rightarrow> int \<Rightarrow> 'e error + int list list" where
  "pad_sequence sequences padding_value =
     (if sequences = [] then Inl RuntimeError
      else Inr (map (\<lambda>t. t @ replicate (max_len_of sequences - length t) padding_value) sequences))"

text \<open>
  \<^verbatim>\<open>collate_fn\<close>.  A batch is a list of pairs of 1-D tensors.  Unpacking
  \<^verbatim>\<open>list(zip(*batch))\<close> into two names raises \<open>ValueError\<close> on an empty batch.
\<close>

definition collate_fn :: "(int list \<times> int list) list \<Rightarrow> 'e error + int list list \<times> int list list" where
  "collate_fn batch =
     (let pad_token_id = 1 in
      if batch = [] then Inl ValueError
      else
        (let input_ids = map fst batch; output_ids = map snd batch in
         case pad_sequence input_ids pad_token_id of
           Inl e \<Rightarrow> Inl e
         | Inr input_ids' \<Rightarrow>
             (case pad_sequence output_ids pad_token_id of
                Inl e \<Rightarrow> Inl e
              | Inr output_ids' \<Rightarrow> Inr (input_ids', output_ids'))))"

section \<open>Summarizer\<close>

text \<open>
  Element-wise tensor operations of the library, on 2-D tensors given by their rows:
  \<^verbatim>\<open>torch.ones(t.shape)\<close>, \<^verbatim>\<open>t == v\<close>, \<^verbatim>\<open>t != v\<close>, the masked assignment
  \<^verbatim>\<open>t[mask] = v\<close> and \<^verbatim>\<open>t.numel()\<close>.
\<close>

definition ones :: "int list list \<Rightarrow> int list list" where
  "ones t = map (map (\<lambda>_. 1)) t"

definition eq_scalar :: "int list list \<Rightarrow> int \<Rightarrow> bool list list" where
  "eq_scalar t v = map (map (\<lambda>x. x = v)) t"

definition ne_scalar :: "int list list \<Rightarrow> int \<Rightarrow> bool list list" where
  "ne_scalar t v = map (map (\<lambda>x. x \<noteq> v)) t"

definition masked_assign :: "int list list \<Rightarrow> bool list list \<Rightarrow> int \<Rightarrow> int list list" where
  "masked_assign t msk v = map2 (map2 (\<lambda>x m. if m then v else x)) t msk"

definition numel :: "int list list \<Rightarrow> nat" where
  "numel t = sum_list (map length t)"

text \<open>The keyword arguments with which the pretrained model is called.\<close>

record model_kwargs =
  kw_input_ids :: "int list list"
  kw_attention_mask :: "int list list"
  kw_decoder_input_ids :: "int list list"
  kw_decoder_attention_mask :: "bool list list"
  kw_labels :: "int list list"

text \<open>
  The pretrained model: \<open>model_call\<close> is \<^verbatim>\<open>self.model(...)\<close>, whose result is a tuple
  with the loss first; \<open>generate ids mask use_cache max_length\<close> is
  \<^verbatim>\<open>self.model.generate(...)\<close>.
\<close>

record ('e, 'o) seq2seq_model =
  model_call :: "model_kwargs \<Rightarrow> 'e + real \<times> 'o"
  generate :: "int list list \<Rightarrow> int list list \<Rightarrow> bool \<Rightarrow> int \<Rightarrow> 'e + int list list"

text \<open>
  What the script reads of the trainer: \<open>optimizer_lr\<close> is
  \<^verbatim>\<open>self.trainer.optimizers[0].param_groups[0]['lr']\<close>.
\<close>

record 'e trainer_obj =
  use_ddp :: bool
  world_size :: int
  optimizer_lr :: "'e + real"

text \<open>The command-line arguments the modelled functions read.\<close>

record args =
  save_dir :: string
  save_prefix :: string
  gpus :: int
  epochs :: int
  grad_accum :: int
  val_every :: real
  val_percent_check :: real
  disable_checkpointing :: bool
  max_output_len :: int
  max_input_len :: int
  test :: bool
  no_progress_bar :: bool
  fp32 :: bool
  debug :: bool
  resume_ckpt :: "string option"

record ('e, 'o) summarizer =
  args :: args
  tokenizer :: "'e tokenizer_obj"
  model :: "('e, 'o) seq2seq_model"
  trainer :: "'e trainer_obj"
  hf_datasets :: "(string \<times> entry list) list"

text \<open>
  The other libraries: one ROUGE score has a precision, a recall and an F-measure, and
  \<open>scorer_score ref pred\<close> is \<^verbatim>\<open>scorer.score(ref, pred)\<close> of a scorer built for
  \<^verbatim>\<open>rouge1\<close>, \<^verbatim>\<open>rouge2\<close> and \<^verbatim>\<open>rougeL\<close>; \<open>cuda_memory_allocated\<close> is the
  number of bytes \<^verbatim>\<open>torch.cuda.memory_allocated\<close> returns; \<open>all_reduce_peers name\<close>
  is the list of tensors the other workers bring to the \<^verbatim>\<open>all_reduce\<close> made for the
  metric \<open>name\<close>.
\<close>

record score_obj =
  precision :: real
  recall :: real
  fmeasure :: real

record score_dict =
  key_rouge1 :: score_obj
  key_rouge2 :: score_obj
  key_rougeL :: score_obj

record 'e libraries =
  scorer_score :: "string \<Rightarrow> string \<Rightarrow> 'e + score_dict"
  cuda_memory_allocated :: "'e + nat"
  all_reduce_peers :: "string \<Rightarrow> 'e + real list"

text \<open>
  \<^verbatim>\<open>forward\<close>: the tensors built from the batch, then the call of the model with
  them.  A slice \<^verbatim>\<open>t[:, :-1]\<close> drops the last element of every row and \<^verbatim>\<open>t[:, 1:]\<close>
  the first; both leave an empty row empty.
\<close>

definition forward_kwargs :: "('e, 'o) summarizer \<Rightarrow> int list list \<Rightarrow> int list list \<Rightarrow> model_kwargs" where
  "forward_kwargs self input_ids output_ids =
     (let attention_mask = ones input_ids;
          attention_mask = masked_assign attention_mask
                             (eq_scalar input_ids (pad_token_id (tokenizer self))) 0;
          decoder_input_ids = map butlast output_ids;
          decoder_attention_mask = ne_scalar decoder_input_ids (pad_token_id (tokenizer self));
          labels = map tl output_ids;
          labels = masked_assign labels (eq_scalar labels (pad_token_id (tokenizer self))) (- 100)
      in \<lparr>kw_input_ids = input_ids,
          kw_attention_mask = attention_mask,
          kw_decoder_input_ids = decoder_input_ids,
          kw_decoder_attention_mask = decoder_attention_mask,
          kw_labels = labels\<rparr>)"

definition forward :: "('e, 'o) summarizer \<Rightarrow> int list list \<Rightarrow> int list list \<Rightarrow> 'e error + real \<times> 'o" where
  "forward self input_ids output_ids =
     call (model_call (model self) (forward_kwargs self input_ids output_ids))"

text \<open>
  The dictionaries the steps return have string keys; a value is a number (a tensor of
  one element, a Python float or a Python integer) or a dictionary of numbers.
  \<open>getitem_dict d k\<close> is \<^verbatim>\<open>d[k]\<close>.  The steps do not use the batch number the
  trainer passes them, and it is left out.
\<close>

datatype pyval = Num real | Dict "(string \<times> real) list"

definition getitem_dict :: "(string \<times> 'a) list \<Rightarrow> string \<Rightarrow> 'e error + 'a" where
  "getitem_dict d k = (case map_of d k of None \<Rightarrow> Inl KeyError | Some v \<Rightarrow> Inr v)"

definition training_step ::
  "'e libraries \<Rightarrow> ('e, 'o) summarizer \<Rightarrow> int list list \<times> int list list \<Rightarrow>
     'e error + (string \<times> pyval) list" where
  "training_step lib self batch =
     (case forward self (fst batch) (snd batch) of
        Inl e \<Rightarrow> Inl e
      | Inr output \<Rightarrow>
          (let loss = fst output in
           case call (optimizer_lr (trainer self)) of
             Inl e \<Rightarrow> Inl e
           | Inr group_lr \<Rightarrow>
               (let lr = 0 + group_lr in
                case call (cuda_memory_allocated lib) of
                  Inl e \<Rightarrow> Inl e
                | Inr allocated \<Rightarrow>
                    (let tensorboard_logs =
                           [(''train_loss'', loss),
                            (''lr'', lr),
                            (''input_size'', real (numel (fst batch))),
                            (''output_size'', real (numel (snd batch))),
                            (''mem'', real allocated / 1024 ^ 3)]
                     in Inr [(''loss'', Num loss), (''log'', Dict tensorboard_logs)]))))"

text \<open>
  \<^verbatim>\<open>validation_step\<close>.  The loop over \<^verbatim>\<open>zip(gold_str, generated_str)\<close> adds the
  F-measures of each pair to three sums; \<open>truediv\<close> is the division of a Python float by
  a Python integer, which raises on zero.
\<close>

fun rouge_loop ::
  "(string \<Rightarrow> string \<Rightarrow> 'e + score_dict) \<Rightarrow> (string \<times> string) list \<Rightarrow>
     real \<times> real \<times> real \<Rightarrow> 'e error + real \<times> real \<times> real" where
  "rouge_loop sc [] acc = Inr acc"
| "rouge_loop sc ((ref, pred) # rest) (rouge1, rouge2, rougel) =
     (case call (sc ref pred) of
        Inl e \<Rightarrow> Inl e
      | Inr score \<Rightarrow>
          rouge_loop sc rest
            (rouge1 + fmeasure (key_rouge1 score),
             rouge2 + fmeasure (key_rouge2 score),
             rougel + fmeasure (key_rougeL score)))"

definition truediv :: "real \<Rightarrow> int \<Rightarrow> 'e error + real" where
  "truediv x n = (if n = 0 then Inl ZeroDivisionError else Inr (x / real_of_int n))"

definition validation_step ::
  "'e libraries \<Rightarrow> ('e, 'o) summarizer \<Rightarrow> int list list \<times> int list list \<Rightarrow>
     'e error + (string \<times> real) list" where
  "validation_step lib self batch =
     (case forward self (fst batch) (snd batch) of
        Inl e \<Rightarrow> Inl e
      | Inr outputs \<Rightarrow>
          (let vloss = fst outputs;
               input_ids = fst batch;
               output_ids = snd batch;
               attention_mask = ones input_ids;
               attention_mask = masked_assign attention_mask
                                  (eq_scalar input_ids (pad_token_id (tokenizer self))) 0
           in
           case call (generate (model self) input_ids attention_mask True
                        (max_output_len (args self))) of
             Inl e \<Rightarrow> Inl e
           | Inr generated_ids \<Rightarrow>
               (case call (batch_decode (tokenizer self) generated_ids) of
                  Inl e \<Rightarrow> Inl e
                | Inr generated_str \<Rightarrow>
                    (case call (batch_decode (tokenizer self) output_ids) of
                       Inl e \<Rightarrow> Inl e
                     | Inr gold_str \<Rightarrow>
                         (case rouge_loop (scorer_score lib) (zip gold_str generated_str)
                                 (0, 0, 0) of
                            Inl e \<Rightarrow> Inl e
                          | Inr (rouge1, rouge2, rougel) \<Rightarrow>
                              (case truediv rouge1 (int (length generated_str)) of
                                 Inl e \<Rightarrow> Inl e
                               | Inr rouge1 \<Rightarrow>
                                   (case truediv rouge2 (int (length generated_str)) of
                                      Inl e \<Rightarrow> Inl e
                                    | Inr rouge2 \<Rightarrow>
                                        (case truediv rougel (int (length generated_str)) of
                                           Inl e \<Rightarrow> Inl e
                                         | Inr rougel \<Rightarrow>
                                             Inr [(''vloss'', vloss),
                                                  (''rouge1'', 0 + rouge1),
                                                  (''rouge2'', 0 + rouge2),
                                                  (''rougeL'', 0 + rougel)]))))))))"

text \<open>
  \<^verbatim>\<open>validation_epoch_end\<close>.  \<open>collect outputs name\<close> is the comprehension
  \<^verbatim>\<open>[x[name] for x in outputs]\<close>; \<^verbatim>\<open>torch.stack\<close> refuses an empty list, and the mean
  of the stacked tensors is their sum over their number.  With distributed training the
  \<^verbatim>\<open>all_reduce\<close> adds the tensors of the other workers to the local one, and the sum is
  divided by \<^verbatim>\<open>world_size\<close> (a positive number in a running trainer; a division of a
  tensor by zero raises nothing and is not modelled).
\<close>

fun collect :: "(string \<times> real) list list \<Rightarrow> string \<Rightarrow> 'e error + real list" where
  "collect [] name = Inr []"
| "collect (x # outputs) name =
     (case getitem_dict x name of
        Inl e \<Rightarrow> Inl e
      | Inr v \<Rightarrow> (case collect outputs name of Inl e \<Rightarrow> Inl e | Inr vs \<Rightarrow> Inr (v # vs)))"

definition stack_mean :: "real list \<Rightarrow> 'e error + real" where
  "stack_mean xs = (if xs = [] then Inl RuntimeError else Inr (sum_list xs / real (length xs)))"

definition epoch_metric ::
  "'e libraries \<Rightarrow> ('e, 'o) summarizer \<Rightarrow> (string \<times> real) list list \<Rightarrow> string \<Rightarrow> 'e error + real" where
  "epoch_metric lib self outputs name =
     (case collect outputs name of
        Inl e \<Rightarrow> Inl e
      | Inr xs \<Rightarrow>
          (case stack_mean xs of
             Inl e \<Rightarrow> Inl e
           | Inr metric \<Rightarrow>
               if use_ddp (trainer self) then
                 (case call (all_reduce_peers lib name) of
                    Inl e \<Rightarrow> Inl e
                  | Inr peers \<Rightarrow>
                      Inr ((metric + sum_list peers) / real_of_int (world_size (trainer self))))
               else Inr metric))"

fun metrics_loop ::
  "'e libraries \<Rightarrow> ('e, 'o) summarizer \<Rightarrow> (string \<times> real) list list \<Rightarrow> string list \<Rightarrow>
     real list \<Rightarrow> 'e error + real list" where
  "metrics_loop lib self outputs [] metrics = Inr metrics"
| "metrics_loop lib self outputs (name # names) metrics =
     (case epoch_metric lib self outputs name of
        Inl e \<Rightarrow> Inl e
      | Inr metric \<Rightarrow> metrics_loop lib self outputs names (metrics @ [metric]))"

definition validation_epoch_end ::
  "'e libraries \<Rightarrow> ('e, 'o) summarizer \<Rightarrow> (string \<times> real) list list \<Rightarrow>
     'e error + (string \<times> pyval) list" where
  "validation_epoch_end lib self outputs =
     (let names = [''vloss'', ''rouge1'', ''rouge2'', ''rougeL''] in
      case metrics_loop lib self outputs names [] of
        Inl e \<Rightarrow> Inl e
      | Inr metrics \<Rightarrow>
          (let logs = zip names metrics in
           case getitem_dict logs ''vloss'' of
             Inl e \<Rightarrow> Inl e
           | Inr avg \<Rightarrow>
               Inr [(''avg_val_loss'', Num avg), (''log'', Dict logs), (''progress_bar'', Dict logs)]))"

definition test_step ::
  "'e libraries \<Rightarrow> ('e, 'o) summarizer \<Rightarrow> int list list \<times> int list list \<Rightarrow>
     'e error + (string \<times> real) list" where
  "test_step lib self batch = validation_step lib self batch"

text \<open>\<^verbatim>\<open>test_epoch_end\<close> prints the result and returns nothing: its value is what it printed.\<close>

definition test_epoch_end ::
  "'e libraries \<Rightarrow> ('e, 'o) summarizer \<Rightarrow> (string \<times> real) list list \<Rightarrow>
     'e error + (string \<times> pyval) list list" where
  "test_epoch_end lib self outputs =
     (case validation_epoch_end lib self outputs of
        Inl e \<Rightarrow> Inl e
      | Inr result \<Rightarrow> Inr [result])"

text \<open>
  The dataset \<^verbatim>\<open>_get_dataloader\<close> builds for a split, and what the data loader does with
  it for one batch of indices: it collates the items of the indices, in their order.
\<close>

definition get_dataset :: "('e, 'o) summarizer \<Rightarrow> string \<Rightarrow> 'e error + 'e summarization_dataset" where
  "get_dataset self split_name =
     (case getitem_dict (hf_datasets self) split_name of
        Inl e \<Rightarrow> Inl e
      | Inr split \<Rightarrow>
          Inr \<lparr>hf_dataset = split,
               ds_tokenizer = tokenizer self,
               ds_max_input_len = max_input_len (args self),
               ds_max_output_len = max_output_len (args self)\<rparr>)"

fun getitems :: "'e summarization_dataset \<Rightarrow> int list \<Rightarrow> 'e error + (int list \<times> int list) list" where
  "getitems dataset [] = Inr []"
| "getitems dataset (idx # idxs) =
     (case getitem dataset idx of
        Inl e \<Rightarrow> Inl e
      | Inr item \<Rightarrow>
          (case getitems dataset idxs of Inl e \<Rightarrow> Inl e | Inr items \<Rightarrow> Inr (item # items)))"

definition fetch :: "'e summarization_dataset \<Rightarrow> int list \<Rightarrow> 'e error + int list list \<times> int list list" where
  "fetch dataset idxs =
     (case getitems dataset idxs of Inl e \<Rightarrow> Inl e | Inr batch \<Rightarrow> collate_fn batch)"

section \<open>main\<close>

text \<open>
  The checkpoint callback and the trainer are objects of the trainer library; the script
  only chooses their arguments.  \<open>path_join\<close> is \<^verbatim>\<open>os.path.join\<close> of two POSIX paths.
\<close>

record model_checkpoint =
  filepath :: string
  save_top_k :: int
  verbose :: bool
  monitor :: string
  mode :: string
  period :: int
  prefix :: string

definition path_join :: "string \<Rightarrow> string \<Rightarrow> string" where
  "path_join a b =
     (if b \<noteq> [] \<and> hd b = CHR ''/'' then b
      else if a = [] \<or> last a = CHR ''/'' then a @ b
      else a @ ''/'' @ b)"

definition checkpoint_callback :: "args \<Rightarrow> model_checkpoint" where
  "checkpoint_callback a =
     \<lparr>filepath = path_join (path_join (save_dir a) (save_prefix a)) ''checkpoints'',
      save_top_k = 5,
      verbose = True,
      monitor = ''avg_val_loss'',
      mode = ''min'',
      period = - 1,
      prefix = []\<rparr>"

record trainer_kwargs =
  tk_gpus :: int
  distributed_backend :: string
  max_epochs :: int
  replace_sampler_ddp :: bool
  accumulate_grad_batches :: int
  val_check_interval :: real
  num_sanity_val_steps :: int
  check_val_every_n_epoch :: int
  tk_val_percent_check :: real
  test_percent_check :: real
  tk_checkpoint_callback :: "model_checkpoint option"
  show_progress_bar :: bool
  use_amp :: bool
  amp_level :: string
  resume_from_checkpoint :: "string option"

text \<open>
  The keyword arguments of \<^verbatim>\<open>pl.Trainer\<close>; \<open>None\<close> for the checkpoint callback is the
  \<^verbatim>\<open>False\<close> the script passes when checkpointing is disabled.
\<close>

definition trainer_arguments :: "args \<Rightarrow> trainer_kwargs" where
  "trainer_arguments a =
     \<lparr>tk_gpus = gpus a,
      distributed_backend = ''ddp'',
      max_epochs = (if \<not> debug a then epochs a else 100),
      replace_sampler_ddp = False,
      accumulate_grad_batches = grad_accum a,
      val_check_interval = val_every a,
      num_sanity_val_steps = 2,
      check_val_every_n_epoch = (if \<not> debug a then 1 else 5),
      tk_val_percent_check = val_percent_check a,
      test_percent_check = val_percent_check a,
      tk_checkpoint_callback =
        (if \<not> disable_checkpointing a then Some (checkpoint_callback a) else None),
      show_progress_bar = (\<not> no_progress_bar a),
      use_amp = (\<not> fp32 a),
      amp_level = ''O2'',
      resume_from_checkpoint = resume_ckpt a\<rparr>"

text \<open>
  The calls of \<^verbatim>\<open>main\<close> into the libraries: building the \<^verbatim>\<open>Summarizer\<close> (which
  loads the tokenizer and the model), loading the dataset, and the trainer's \<^verbatim>\<open>fit\<close>
  and \<^verbatim>\<open>test\<close>, which take and return the state \<open>'m\<close> of the run.  The seeding of
  the random generators, the logger and the printing of the arguments are left out.
\<close>

record ('e, 'm, 'd) runtime =
  new_summarizer :: "args \<Rightarrow> 'e + 'm"
  load_dataset :: "string \<Rightarrow> string \<Rightarrow> 'e + 'd"
  set_datasets :: "'m \<Rightarrow> 'd \<Rightarrow> 'm"
  trainer_fit :: "trainer_kwargs \<Rightarrow> 'm \<Rightarrow> 'e + 'm"
  trainer_test :: "trainer_kwargs \<Rightarrow> 'm \<Rightarrow> 'e + 'm"

definition main :: "('e, 'm, 'd) runtime \<Rightarrow> args \<Rightarrow> 'e error + 'm" where
  "main rt a =
     (case call (new_summarizer rt a) of
        Inl e \<Rightarrow> Inl e
      | Inr model0 \<Rightarrow>
          (case call (load_dataset rt ''scientific_papers'' ''arxiv'') of
             Inl e \<Rightarrow> Inl e
           | Inr datasets \<Rightarrow>
               (let model1 = set_datasets rt model0 datasets;
                    kwargs = trainer_arguments a
                in
                if \<not> test a then
                  (case call (trainer_fit rt kwargs model1) of
                     Inl e \<Rightarrow> Inl e
                   | Inr model2 \<Rightarrow> call (trainer_test rt kwargs model2))
                else call (trainer_test rt kwargs model1))))"

text \<open>
  Modelled from the spec: the checkpoint callback's retention is the trainer library's,
  not part of the sources.  The spec words it as ``checkpoint files written by the
  external trainer, keyed by validation-loss ranking (top 5 kept)'': of the results of
  the validation epochs so far, those that report the monitored key are ranked by its
  value, smallest first when the mode is \<^verbatim>\<open>min\<close>, and the first \<open>save_top_k\<close> are
  kept.
\<close>

definition monitored :: "model_checkpoint \<Rightarrow> (string \<times> pyval) list \<Rightarrow> real option" where
  "monitored cb result =
     (case map_of result (monitor cb) of Some (Num v) \<Rightarrow> Some v | _ \<Rightarrow> None)"

definition rank_key :: "model_checkpoint \<Rightarrow> real \<Rightarrow> real" where
  "rank_key cb v = (if mode cb = ''min'' then v else - v)"

definition candidates :: "model_checkpoint \<Rightarrow> (string \<times> pyval) list list \<Rightarrow> (nat \<times> real) list" where
  "candidates cb history =
     concat (map (\<lambda>(epoch, result).
                    case monitored cb result of None \<Rightarrow> [] | Some v \<Rightarrow> [(epoch, v)])
                 (zip [0 ..< length history] history))"

definition ranked :: "model_checkpoint \<Rightarrow> (string \<times> pyval) list list \<Rightarrow> (nat \<times> real) list" where
  "ranked cb history = sort_key (\<lambda>c. rank_key cb (snd c)) (candidates cb history)"

definition kept_checkpoints :: "model_checkpoint \<Rightarrow> (string \<times> pyval) list list \<Rightarrow> (nat \<times> real) list" where
  "kept_checkpoints cb history = take (nat (save_top_k cb)) (ranked cb history)"

definition dropped_checkpoints :: "model_checkpoint \<Rightarrow> (string \<times> pyval) list list \<Rightarrow> (nat \<times> real) list" where
  "dropped_checkpoints cb history = drop (nat (save_top_k cb)) (ranked cb history)"

text \<open>
  Modelled from the spec: the loss of the pretrained model is the library's.  The spec
  says that padding positions are ``excluded from loss computation via a separate
  sentinel'': a position of the labels is counted in the loss unless its label is
  \<open>- 100\<close>.
\<close>

definition ignore_index :: int where
  "ignore_index = - 100"

definition counted_in_loss :: "int list list \<Rightarrow> nat \<Rightarrow> nat \<Rightarrow> bool" where
  "counted_in_loss labels i j =
     (i < length labels \<and> j < length (labels ! i) \<and> labels ! i ! j \<noteq> ignore_index)"

section \<open>Notions of the specification\<close>

text \<open>The arithmetic mean of a list of numbers: their sum over their number.\<close>

definition arithmetic_mean :: "real list \<Rightarrow> real" where
  "arithmetic_mean xs = sum_list xs / real (length xs)"

text \<open>
  What is reported for a metric whose per-batch values on this worker are \<open>xs\<close>: their
  mean, and with distributed training the sum of that mean and of the means \<open>peers name\<close>
  of the other workers, over the number of workers.
\<close>

definition reported ::
  "'e libraries \<Rightarrow> ('e, 'o) summarizer \<Rightarrow> (string \<Rightarrow> real list) \<Rightarrow> string \<Rightarrow> real list \<Rightarrow> real" where
  "reported lib self peers name xs =
     (if use_ddp (trainer self)
      then (arithmetic_mean xs + sum_list (peers name)) / real_of_int (world_size (trainer self))
      else arithmetic_mean xs)"

text \<open>
  The dictionary a validation step returns for a validation loss and three ROUGE averages.
\<close>

definition step_dict :: "real \<times> real \<times> real \<times> real \<Rightarrow> (string \<times> real) list" where
  "step_dict v =
     (case v of (vloss, r1, r2, rl) \<Rightarrow>
        [(''vloss'', vloss), (''rouge1'', r1), (''rouge2'', r2), (''rougeL'', rl)])"

text \<open>
  What the libraries promise and the script relies on: the tokenizer, asked to truncate to
  a maximal length, returns no more tokens than that; generation returns one sequence for
  each row of its input, and decoding one string for each sequence.
\<close>

definition truncates :: "'e tokenizer_obj \<Rightarrow> bool" where
  "truncates tok = (\<forall>text n ids. encode tok text n = Inr ids \<longrightarrow> int (length ids) \<le> n)"

definition one_per_row :: "('e, 'o) summarizer \<Rightarrow> bool" where
  "one_per_row self =
     ((\<forall>ids msk use_cache n generated.
         generate (model self) ids msk use_cache n = Inr generated \<longrightarrow>
         length generated = length ids) \<and>
      (\<forall>ids strs. batch_decode (tokenizer self) ids = Inr strs \<longrightarrow> length strs = length ids))"

text \<open>
  The positions the collator adds to a batch lie right of each original sequence.  They
  are excluded by \<^verbatim>\<open>forward\<close> when the attention mask is \<open>0\<close> at each added position
  of the inputs, the decoder's attention mask is \<open>False\<close> at each added position of the
  decoder's inputs, and no label taken from an added position of the targets is counted
  in the loss.  (The label at index \<open>j\<close> is taken from position \<open>j + 1\<close> of the targets.)
\<close>

definition added_padding_excluded :: "('e, 'o) summarizer \<Rightarrow> (int list \<times> int list) list \<Rightarrow> bool" where
  "added_padding_excluded self batch =
     (case (collate_fn batch :: unit error + int list list \<times> int list list) of
        Inl e \<Rightarrow> True
      | Inr (input_ids, output_ids) \<Rightarrow>
          (let kw = forward_kwargs self input_ids output_ids in
           \<forall>i \<in> set [0 ..< length batch].
             (\<forall>j \<in> set [length (fst (batch ! i)) ..< length (input_ids ! i)].
                kw_attention_mask kw ! i ! j = 0) \<and>
             (\<forall>j \<in> set [length (snd (batch ! i)) ..< length (output_ids ! i) - 1].
                \<not> kw_decoder_attention_mask kw ! i ! j) \<and>
             (\<forall>j \<in> set [length (snd (batch ! i)) - 1 ..< length (output_ids ! i) - 1].
                \<not> counted_in_loss (kw_labels kw) i j)))"

section \<open>A small instance\<close>

text \<open>
  A tokenizer that maps a character to its code, truncates by cutting and decodes without
  the pad tokens; a model whose loss is the number of labels it counts and whose
  generation repeats the first tokens of its input; a scorer that gives a pair of equal
  strings the score one and any other pair a half; a trainer of two workers; a run whose
  \<^verbatim>\<open>fit\<close> fails for a negative number of epochs and whose \<^verbatim>\<open>test\<close> adds to the state
  the number of checkpoints its callback may keep.
\<close>

definition example_tokenizer :: "unit tokenizer_obj" where
  "example_tokenizer =
     \<lparr>encode = (\<lambda>text n. if n < 0 then Inl () else Inr (take (nat n) (map (\<lambda>c. int (of_char c)) text))),
      batch_decode = (\<lambda>ids.
        Inr (map (\<lambda>row. map (\<lambda>t. if t = 97 then CHR ''a'' else if t = 98 then CHR ''b'' else CHR ''x'')
                          (filter (\<lambda>t. t \<noteq> 1) row)) ids)),
      pad_token_id = 1\<rparr>"

definition example_model :: "(unit, unit) seq2seq_model" where
  "example_model =
     \<lparr>model_call = (\<lambda>kw. Inr (real (length (filter (\<lambda>t. t \<noteq> - 100) (concat (kw_labels kw)))), ())),
      generate = (\<lambda>ids msk use_cache n. Inr (map (take (nat n)) ids))\<rparr>"

definition example_trainer :: "unit trainer_obj" where
  "example_trainer = \<lparr>use_ddp = True, world_size = 2, optimizer_lr = Inr (1 / 4)\<rparr>"

definition example_args :: args where
  "example_args =
     \<lparr>save_dir = ''summarization'', save_prefix = ''test'', gpus = - 1, epochs = 5,
      grad_accum = 1, val_every = 1, val_percent_check = 1, disable_checkpointing = False,
      max_output_len = 2, max_input_len = 3, test = False, no_progress_bar = False,
      fp32 = False, debug = False, resume_ckpt = None\<rparr>"

definition example_summarizer :: "(unit, unit) summarizer" where
  "example_summarizer =
     \<lparr>args = example_args, tokenizer = example_tokenizer, model = example_model,
      trainer = example_trainer,
      hf_datasets = [(''train'', [\<lparr>article = ''abcd'', abstract = ''ab''\<rparr>,
                                 \<lparr>article = ''a'', abstract = ''xyz''\<rparr>])]\<rparr>"

definition example_dataset :: "unit summarization_dataset" where
  "example_dataset =
     \<lparr>hf_dataset = [\<lparr>article = ''abcd'', abstract = ''ab''\<rparr>,
                    \<lparr>article = ''a'', abstract = ''xyz''\<rparr>],
      ds_tokenizer = example_tokenizer,
      ds_max_input_len = 3,
      ds_max_output_len = 2\<rparr>"

definition example_score :: "real \<Rightarrow> score_obj" where
  "example_score f = \<lparr>precision = f, recall = f, fmeasure = f\<rparr>"

definition example_libraries :: "unit libraries" where
  "example_libraries =
     \<lparr>scorer_score = (\<lambda>ref pred.
        Inr (if ref = pred
             then \<lparr>key_rouge1 = example_score 1, key_rouge2 = example_score 1, key_rougeL = example_score 1\<rparr>
             else \<lparr>key_rouge1 = example_score (1 / 2), key_rouge2 = example_score (1 / 2),
                   key_rougeL = example_score (1 / 2)\<rparr>)),
      cuda_memory_allocated = Inr 0,
      all_reduce_peers = (\<lambda>name. if name = ''vloss'' then Inr [4] else Inr [1 / 2])\<rparr>"

definition example_runtime :: "(unit, nat, nat) runtime" where
  "example_runtime =
     \<lparr>new_summarizer = (\<lambda>a. Inr 0),
      load_dataset = (\<lambda>name config. Inr 7),
      set_datasets = (\<lambda>m d. m + d),
      trainer_fit = (\<lambda>kw m. if max_epochs kw < 0 then Inl () else Inr (m + 1)),
      trainer_test = (\<lambda>kw m.
        case tk_checkpoint_callback kw of
          None \<Rightarrow> Inr m
        | Some cb \<Rightarrow> Inr (m + nat (save_top_k cb)))\<rparr>"

section \<open>Properties\<close>

subsection \<open>Calls of the libraries\<close>

lemma call_Inr_iff: "call r = Inr v \<longleftrightarrow> r = Inr v"
  by (cases r) (auto simp: call_def)

lemma call_Inl_iff: "call r = Inl err \<longleftrightarrow> (\<exists>e. r = Inl e \<and> err = Framework e)"
  by (cases r) (auto simp: call_def)

subsection \<open>The collator\<close>

lemma max_len_of_ge: "s \<in> set sequences \<Longrightarrow> length s \<le> max_len_of sequences"
  unfolding max_len_of_def by (induction sequences) auto

lemma max_len_of_Max:
  "sequences \<noteq> [] \<Longrightarrow> max_len_of sequences = Max (length ` set sequences)"
proof (induction sequences)
  case Nil
  then show ?case by simp
next
  case (Cons s rest)
  show ?case
  proof (cases "rest = []")
    case True
    then show ?thesis by (simp add: max_len_of_def)
  next
    case False
    with Cons have "max_len_of rest = Max (length ` set rest)" by simp
    moreover have "max_len_of (s # rest) = max (length s) (max_len_of rest)"
      by (simp add: max_len_of_def)
    ultimately show ?thesis using False by simp
  qed
qed

lemma collate_fn_Inr:
  "batch \<noteq> [] \<Longrightarrow>
   collate_fn batch =
     Inr (map (\<lambda>t. t @ replicate (max_len_of (map fst batch) - length t) 1) (map fst batch),
          map (\<lambda>t. t @ replicate (max_len_of (map snd batch) - length t) 1) (map snd batch))"
  by (simp add: collate_fn_def pad_sequence_def)

text \<open>
  C2.  For a non-empty batch the collator returns two tensors with one row for each pair
  of the batch, in the batch's order.  Each row of the inputs has the length of the
  longest input of the batch, starts with the original input, and holds the pad value
  \<open>1\<close> at every position after it; likewise each row of the targets.
\<close>

theorem collate_fn_right_pads:
  assumes "batch \<noteq> []"
  shows "\<exists>inputs targets.
           collate_fn batch = Inr (inputs, targets) \<and>
           length inputs = length batch \<and> length targets = length batch \<and>
           (\<forall>i < length batch.
              length (inputs ! i) = Max (length ` fst ` set batch) \<and>
              take (length (fst (batch ! i))) (inputs ! i) = fst (batch ! i) \<and>
              drop (length (fst (batch ! i))) (inputs ! i) =
                replicate (Max (length ` fst ` set batch) - length (fst (batch ! i))) 1 \<and>
              length (targets ! i) = Max (length ` snd ` set batch) \<and>
              take (length (snd (batch ! i))) (targets ! i) = snd (batch ! i) \<and>
              drop (length (snd (batch ! i))) (targets ! i) =
                replicate (Max (length ` snd ` set batch) - length (snd (batch ! i))) 1)"
proof -
  have mf: "max_len_of (map fst batch) = Max (length ` fst ` set batch)"
    using assms by (simp add: max_len_of_Max image_image)
  have ms: "max_len_of (map snd batch) = Max (length ` snd ` set batch)"
    using assms by (simp add: max_len_of_Max image_image)
  have gf: "length (fst (batch ! i)) \<le> max_len_of (map fst batch)" if "i < length batch" for i
    using that by (intro max_len_of_ge) simp
  have gs: "length (snd (batch ! i)) \<le> max_len_of (map snd batch)" if "i < length batch" for i
    using that by (intro max_len_of_ge) simp
  show ?thesis
    unfolding collate_fn_Inr [OF assms] using gf gs by (simp add: mf ms)
qed

theorem collate_fn_right_pads_witness:
  "(collate_fn [([5, 6, 7], [8]), ([9], [10, 11])] :: unit error + int list list \<times> int list list)
     = Inr ([[5, 6, 7], [9, 1, 1]], [[8, 1], [10, 11]])"
  using collate_fn_right_pads [of "[([5, 6, 7], [8]), ([9], [10, 11])]"]
  by (simp add: collate_fn_def pad_sequence_def max_len_of_def)

subsection \<open>The tensors of the forward pass\<close>

lemma map2_same: "map2 f xs (map g xs) = map (\<lambda>x. f x (g x)) xs"
  by (induction xs) auto

lemma masked_assign_eq_scalar:
  "masked_assign t (eq_scalar t p) v = map (map (\<lambda>x. if x = p then v else x)) t"
  by (simp add: masked_assign_def eq_scalar_def map2_same)

lemma attention_mask_eq:
  "masked_assign (ones t) (eq_scalar t p) 0 = map (map (\<lambda>x. if x = p then 0 else 1)) t"
proof -
  have row: "map2 (\<lambda>x m. if m then 0 else x) (map (\<lambda>_. 1) r) (map (\<lambda>x. x = p) r)
               = map (\<lambda>x. if x = p then (0::int) else 1) r" for r :: "int list"
    by (induction r) auto
  have "map2 (map2 (\<lambda>x m. if m then 0 else x)) (map (map (\<lambda>_. 1)) t) (map (map (\<lambda>x. x = p)) t)
          = map (map (\<lambda>x. if x = p then (0::int) else 1)) t"
    by (induction t) (auto simp: row)
  then show ?thesis by (simp add: masked_assign_def ones_def eq_scalar_def)
qed

lemma forward_kwargs_eq:
  "forward_kwargs self input_ids output_ids =
     \<lparr>kw_input_ids = input_ids,
      kw_attention_mask =
        map (map (\<lambda>x. if x = pad_token_id (tokenizer self) then 0 else 1)) input_ids,
      kw_decoder_input_ids = map butlast output_ids,
      kw_decoder_attention_mask =
        map (map (\<lambda>x. x \<noteq> pad_token_id (tokenizer self))) (map butlast output_ids),
      kw_labels =
        map (map (\<lambda>x. if x = pad_token_id (tokenizer self) then - 100 else x)) (map tl output_ids)\<rparr>"
  by (simp add: forward_kwargs_def Let_def attention_mask_eq masked_assign_eq_scalar ne_scalar_def)

lemma padded_nth:
  "length t \<le> j \<Longrightarrow> j < n \<Longrightarrow> (t @ replicate (n - length t) v) ! j = v"
  by (simp add: nth_append)







subsection \<open>The training step\<close>

lemma training_step_Inr:
  assumes "training_step lib self (input_ids, output_ids) = Inr result"
  shows "\<exists>loss rest group_lr allocated.
           model_call (model self) (forward_kwargs self input_ids output_ids) = Inr (loss, rest) \<and>
           optimizer_lr (trainer self) = Inr group_lr \<and>
           cuda_memory_allocated lib = Inr allocated \<and>
           result =
             [(''loss'', Num loss),
              (''log'', Dict [(''train_loss'', loss), (''lr'', group_lr),
                              (''input_size'', real (numel input_ids)),
                              (''output_size'', real (numel output_ids)),
                              (''mem'', real allocated / 1024 ^ 3)])]"
  using assms
  by (auto simp: training_step_def forward_def Let_def call_Inr_iff split: sum.splits)

lemma training_step_returns:
  assumes "model_call (model self) (forward_kwargs self input_ids output_ids) = Inr (loss, rest)"
    and "optimizer_lr (trainer self) = Inr group_lr"
    and "cuda_memory_allocated lib = Inr allocated"
  shows "training_step lib self (input_ids, output_ids) =
           Inr [(''loss'', Num loss),
                (''log'', Dict [(''train_loss'', loss), (''lr'', group_lr),
                                (''input_size'', real (numel input_ids)),
                                (''output_size'', real (numel output_ids)),
                                (''mem'', real allocated / 1024 ^ 3)])]"
  using assms by (simp add: training_step_def forward_def call_def)

text \<open>
  C3.  The training step returns exactly when the model, the optimizer's learning rate and
  the memory counter return, and then it returns the model's loss under \<^verbatim>\<open>loss\<close> and
  the logging scalars under \<^verbatim>\<open>log\<close>.  The model is called with the batch's inputs,
  with decoder inputs that are the targets without their last column, and with labels
  that are the targets without their first column, the pad tokens replaced by \<open>- 100\<close>.
\<close>

theorem training_step_teacher_forcing:
  "(training_step lib self (input_ids, output_ids) = Inr result \<longleftrightarrow>
      (\<exists>loss rest group_lr allocated.
         model_call (model self) (forward_kwargs self input_ids output_ids) = Inr (loss, rest) \<and>
         optimizer_lr (trainer self) = Inr group_lr \<and>
         cuda_memory_allocated lib = Inr allocated \<and>
         result =
           [(''loss'', Num loss),
            (''log'', Dict [(''train_loss'', loss), (''lr'', group_lr),
                            (''input_size'', real (numel input_ids)),
                            (''output_size'', real (numel output_ids)),
                            (''mem'', real allocated / 1024 ^ 3)])])) \<and>
   kw_input_ids (forward_kwargs self input_ids output_ids) = input_ids \<and>
   length (kw_decoder_input_ids (forward_kwargs self input_ids output_ids)) = length output_ids \<and>
   length (kw_labels (forward_kwargs self input_ids output_ids)) = length output_ids \<and>
   (\<forall>i < length output_ids.
      kw_decoder_input_ids (forward_kwargs self input_ids output_ids) ! i =
        take (length (output_ids ! i) - 1) (output_ids ! i) \<and>
      kw_labels (forward_kwargs self input_ids output_ids) ! i =
        map (\<lambda>t. if t = pad_token_id (tokenizer self) then - 100 else t)
          (drop 1 (output_ids ! i)))"
proof -
  have shape: "kw_input_ids (forward_kwargs self input_ids output_ids) = input_ids \<and>
           length (kw_decoder_input_ids (forward_kwargs self input_ids output_ids)) = length output_ids \<and>
           length (kw_labels (forward_kwargs self input_ids output_ids)) = length output_ids \<and>
           (\<forall>i < length output_ids.
              kw_decoder_input_ids (forward_kwargs self input_ids output_ids) ! i =
                take (length (output_ids ! i) - 1) (output_ids ! i) \<and>
              kw_labels (forward_kwargs self input_ids output_ids) ! i =
                map (\<lambda>t. if t = pad_token_id (tokenizer self) then - 100 else t)
                  (drop 1 (output_ids ! i)))"
    by (simp add: forward_kwargs_eq butlast_conv_take drop_Suc)
  have "training_step lib self (input_ids, output_ids) = Inr result \<longleftrightarrow>
      (\<exists>loss rest group_lr allocated.
         model_call (model self) (forward_kwargs self input_ids output_ids) = Inr (loss, rest) \<and>
         optimizer_lr (trainer self) = Inr group_lr \<and>
         cuda_memory_allocated lib = Inr allocated \<and>
         result =
           [(''loss'', Num loss),
            (''log'', Dict [(''train_loss'', loss), (''lr'', group_lr),
                            (''input_size'', real (numel input_ids)),
                            (''output_size'', real (numel output_ids)),
                            (''mem'', real allocated / 1024 ^ 3)])])"
    using training_step_Inr [of lib self input_ids output_ids result]
      training_step_returns [of self input_ids output_ids _ _ _ lib]
    by blast
  with shape show ?thesis by blast
qed

lemma example_training_step:
  "training_step example_libraries example_summarizer ([[7, 8, 9], [7, 1, 1]], [[0, 5, 2], [0, 2, 1]]) =
     Inr [(''loss'', Num 3),
          (''log'', Dict [(''train_loss'', 3), (''lr'', 1 / 4), (''input_size'', 6),
                          (''output_size'', 6), (''mem'', 0)])]"
  by (simp add: training_step_def forward_def forward_kwargs_eq call_def numel_def
        example_libraries_def example_summarizer_def example_tokenizer_def example_model_def
        example_trainer_def)

theorem training_step_teacher_forcing_witness:
  "training_step example_libraries example_summarizer ([[7, 8, 9], [7, 1, 1]], [[0, 5, 2], [0, 2, 1]]) =
     Inr [(''loss'', Num 3),
          (''log'', Dict [(''train_loss'', 3), (''lr'', 1 / 4), (''input_size'', 6),
                          (''output_size'', 6), (''mem'', 0)])] \<and>
   kw_decoder_input_ids (forward_kwargs example_summarizer [[7, 8, 9], [7, 1, 1]] [[0, 5, 2], [0, 2, 1]])
     = [[0, 5], [0, 2]] \<and>
   kw_labels (forward_kwargs example_summarizer [[7, 8, 9], [7, 1, 1]] [[0, 5, 2], [0, 2, 1]])
     = [[5, 2], [2, - 100]]"
proof -
  have kw:
    "kw_decoder_input_ids (forward_kwargs example_summarizer [[7, 8, 9], [7, 1, 1]] [[0, 5, 2], [0, 2, 1]])
       = [[0, 5], [0, 2]] \<and>
     kw_labels (forward_kwargs example_summarizer [[7, 8, 9], [7, 1, 1]] [[0, 5, 2], [0, 2, 1]])
       = [[5, 2], [2, - 100]]"
    by (simp add: forward_kwargs_eq example_summarizer_def example_tokenizer_def)
  show ?thesis
    using training_step_teacher_forcing
            [of example_libraries example_summarizer "[[7, 8, 9], [7, 1, 1]]" "[[0, 5, 2], [0, 2, 1]]"]
      example_training_step kw
    by blast
qed

subsection \<open>The dataset\<close>

lemma getitem_Inr:
  assumes "getitem dataset idx = Inr (input_ids, output_ids)"
  shows "\<exists>entry \<in> set (hf_dataset dataset).
           encode (ds_tokenizer dataset) (article entry) (ds_max_input_len dataset) = Inr input_ids \<and>
           encode (ds_tokenizer dataset) (abstract entry) (ds_max_output_len dataset) = Inr output_ids"
proof -
  define i where "i = (if idx < 0 then int (length (hf_dataset dataset)) + idx else idx)"
  from assms have range: "0 \<le> i" "i < int (length (hf_dataset dataset))"
    by (auto simp: getitem_def Let_def i_def split: if_splits)
  then have mem: "hf_dataset dataset ! nat i \<in> set (hf_dataset dataset)"
    by simp
  from assms range have
    "encode (ds_tokenizer dataset) (article (hf_dataset dataset ! nat i)) (ds_max_input_len dataset)
       = Inr input_ids \<and>
     encode (ds_tokenizer dataset) (abstract (hf_dataset dataset ! nat i)) (ds_max_output_len dataset)
       = Inr output_ids"
    by (auto simp: getitem_def Let_def i_def call_Inr_iff split: if_splits sum.splits)
  with mem show ?thesis by blast
qed

lemma getitem_returns:
  assumes "- int (len_dataset dataset) \<le> idx" and "idx < int (len_dataset dataset)"
    and "entry = hf_dataset dataset ! nat (if idx < 0 then int (len_dataset dataset) + idx else idx)"
    and "encode (ds_tokenizer dataset) (article entry) (ds_max_input_len dataset) = Inr input_ids"
    and "encode (ds_tokenizer dataset) (abstract entry) (ds_max_output_len dataset) = Inr output_ids"
  shows "getitem dataset idx = Inr (input_ids, output_ids)"
  using assms by (auto simp: getitem_def Let_def len_dataset_def call_def)

lemma getitem_bounds:
  assumes "truncates (ds_tokenizer dataset)"
    and "getitem dataset idx = Inr (input_ids, output_ids)"
  shows "int (length input_ids) \<le> ds_max_input_len dataset"
    and "int (length output_ids) \<le> ds_max_output_len dataset"
  using getitem_Inr [OF assms(2)] assms(1) unfolding truncates_def by blast+

lemma getitems_bounds:
  assumes "truncates (ds_tokenizer dataset)"
  shows "getitems dataset idxs = Inr batch \<Longrightarrow>
         \<forall>item \<in> set batch. int (length (fst item)) \<le> ds_max_input_len dataset \<and>
                            int (length (snd item)) \<le> ds_max_output_len dataset"
proof (induction idxs arbitrary: batch)
  case Nil
  then show ?case by simp
next
  case (Cons idx idxs)
  from Cons.prems obtain item items where
    item: "getitem dataset idx = Inr item" and items: "getitems dataset idxs = Inr items"
    and batch: "batch = item # items"
    by (auto split: sum.splits)
  from getitem_bounds [OF assms, of idx "fst item" "snd item"] item
  have "int (length (fst item)) \<le> ds_max_input_len dataset \<and>
        int (length (snd item)) \<le> ds_max_output_len dataset"
    by simp
  with Cons.IH [OF items] batch show ?case by simp
qed

lemma max_len_of_bound:
  assumes "sequences \<noteq> []" and "\<forall>s \<in> set sequences. int (length s) \<le> m"
  shows "int (max_len_of sequences) \<le> m"
proof -
  have "Max (length ` set sequences) \<in> length ` set sequences"
    using assms(1) by (intro Max_in) auto
  then obtain s where "s \<in> set sequences" and "Max (length ` set sequences) = length s"
    by auto
  with assms show ?thesis by (simp add: max_len_of_Max)
qed

lemma collate_fn_rows:
  assumes "collate_fn batch = Inr (input_ids, output_ids)"
  shows "batch \<noteq> []"
    and "\<forall>row \<in> set input_ids. length row = max_len_of (map fst batch)"
    and "\<forall>row \<in> set output_ids. length row = max_len_of (map snd batch)"
proof -
  show ne: "batch \<noteq> []" using assms by (auto simp: collate_fn_def)
  have ge: "length (f x) \<le> max_len_of (map f batch)" if "x \<in> set batch"
    for x and f :: "int list \<times> int list \<Rightarrow> int list"
    using that by (intro max_len_of_ge) simp
  from assms show "\<forall>row \<in> set input_ids. length row = max_len_of (map fst batch)"
    unfolding collate_fn_Inr [OF ne] using ge [of _ fst] by auto
  from assms show "\<forall>row \<in> set output_ids. length row = max_len_of (map snd batch)"
    unfolding collate_fn_Inr [OF ne] using ge [of _ snd] by auto
qed

lemma fetch_bounds:
  fixes dataset :: "'e summarization_dataset"
  assumes "truncates (ds_tokenizer dataset)"
    and "fetch dataset idxs = Inr (input_ids, output_ids)"
  shows "\<forall>row \<in> set input_ids. int (length row) \<le> ds_max_input_len dataset"
    and "\<forall>row \<in> set output_ids. int (length row) \<le> ds_max_output_len dataset"
proof -
  from assms(2) obtain batch where
    items: "getitems dataset idxs = Inr batch"
    and coll: "(collate_fn batch :: 'e error + int list list \<times> int list list) = Inr (input_ids, output_ids)"
    by (auto simp: fetch_def split: sum.splits)
  note b = getitems_bounds [OF assms(1) items]
  note r = collate_fn_rows [OF coll]
  have "int (max_len_of (map fst batch)) \<le> ds_max_input_len dataset"
    using r(1) b by (intro max_len_of_bound) auto
  with r(2) show "\<forall>row \<in> set input_ids. int (length row) \<le> ds_max_input_len dataset" by simp
  have "int (max_len_of (map snd batch)) \<le> ds_max_output_len dataset"
    using r(1) b by (intro max_len_of_bound) auto
  with r(3) show "\<forall>row \<in> set output_ids. int (length row) \<le> ds_max_output_len dataset" by simp
qed

lemma forward_kwargs_bounds:
  assumes "\<forall>row \<in> set input_ids. int (length row) \<le> m"
    and "\<forall>row \<in> set output_ids. int (length row) \<le> n"
  shows "(\<forall>row \<in> set (kw_input_ids (forward_kwargs self input_ids output_ids)). int (length row) \<le> m) \<and>
         (\<forall>row \<in> set (kw_attention_mask (forward_kwargs self input_ids output_ids)). int (length row) \<le> m) \<and>
         (\<forall>row \<in> set (kw_decoder_input_ids (forward_kwargs self input_ids output_ids)). int (length row) \<le> n) \<and>
         (\<forall>row \<in> set (kw_decoder_attention_mask (forward_kwargs self input_ids output_ids)). int (length row) \<le> n) \<and>
         (\<forall>row \<in> set (kw_labels (forward_kwargs self input_ids output_ids)). int (length row) \<le> n)"
  using assms by (fastforce simp: forward_kwargs_eq)

text \<open>
  C4.  For a tokenizer that honours the maximal length it is asked to truncate to, every
  item of the dataset has at most \<^verbatim>\<open>max_input_len\<close> input tokens and at most
  \<^verbatim>\<open>max_output_len\<close> output tokens, and an index into the dataset whose two texts the
  tokenizer encodes yields an item.  The dataset built for a split has the configured
  lengths.  The bound is kept by what follows: the rows of a collated batch, and the rows
  of every tensor \<^verbatim>\<open>forward\<close> builds from it.
\<close>

theorem getitem_length_bounds:
  fixes dataset :: "'e summarization_dataset"
  assumes "truncates (ds_tokenizer dataset)"
  shows "(\<forall>idx input_ids output_ids.
            getitem dataset idx = Inr (input_ids, output_ids) \<longrightarrow>
            int (length input_ids) \<le> ds_max_input_len dataset \<and>
            int (length output_ids) \<le> ds_max_output_len dataset) \<and>
         (\<forall>idx entry input_ids output_ids.
            - int (len_dataset dataset) \<le> idx \<and> idx < int (len_dataset dataset) \<and>
            entry = hf_dataset dataset ! nat (if idx < 0 then int (len_dataset dataset) + idx else idx) \<and>
            encode (ds_tokenizer dataset) (article entry) (ds_max_input_len dataset) = Inr input_ids \<and>
            encode (ds_tokenizer dataset) (abstract entry) (ds_max_output_len dataset) = Inr output_ids \<longrightarrow>
            getitem dataset idx = Inr (input_ids, output_ids)) \<and>
         (\<forall>(self :: ('e, 'o) summarizer) split_name.
            get_dataset self split_name = Inr dataset \<longrightarrow>
            ds_max_input_len dataset = max_input_len (args self) \<and>
            ds_max_output_len dataset = max_output_len (args self)) \<and>
         (\<forall>idxs input_ids output_ids.
            fetch dataset idxs = Inr (input_ids, output_ids) \<longrightarrow>
            (\<forall>row \<in> set input_ids. int (length row) \<le> ds_max_input_len dataset) \<and>
            (\<forall>row \<in> set output_ids. int (length row) \<le> ds_max_output_len dataset) \<and>
            (\<forall>self :: ('e, 'o) summarizer.
               (\<forall>row \<in> set (kw_input_ids (forward_kwargs self input_ids output_ids)).
                  int (length row) \<le> ds_max_input_len dataset) \<and>
               (\<forall>row \<in> set (kw_attention_mask (forward_kwargs self input_ids output_ids)).
                  int (length row) \<le> ds_max_input_len dataset) \<and>
               (\<forall>row \<in> set (kw_decoder_input_ids (forward_kwargs self input_ids output_ids)).
                  int (length row) \<le> ds_max_output_len dataset) \<and>
               (\<forall>row \<in> set (kw_decoder_attention_mask (forward_kwargs self input_ids output_ids)).
                  int (length row) \<le> ds_max_output_len dataset) \<and>
               (\<forall>row \<in> set (kw_labels (forward_kwargs self input_ids output_ids)).
                  int (length row) \<le> ds_max_output_len dataset)))"
proof (intro conjI allI impI)
  fix idx input_ids output_ids
  assume "getitem dataset idx = Inr (input_ids, output_ids)"
  from getitem_bounds [OF assms this]
  show "int (length input_ids) \<le> ds_max_input_len dataset"
    and "int (length output_ids) \<le> ds_max_output_len dataset" .
next
  fix idx entry input_ids output_ids
  assume "- int (len_dataset dataset) \<le> idx \<and> idx < int (len_dataset dataset) \<and>
            entry = hf_dataset dataset ! nat (if idx < 0 then int (len_dataset dataset) + idx else idx) \<and>
            encode (ds_tokenizer dataset) (article entry) (ds_max_input_len dataset) = Inr input_ids \<and>
            encode (ds_tokenizer dataset) (abstract entry) (ds_max_output_len dataset) = Inr output_ids"
  then show "getitem dataset idx = Inr (input_ids, output_ids)"
    using getitem_returns [of dataset idx entry input_ids output_ids] by blast
next
  fix self :: "('e, 'o) summarizer" and split_name
  assume "get_dataset self split_name = Inr dataset"
  then show "ds_max_input_len dataset = max_input_len (args self)"
    and "ds_max_output_len dataset = max_output_len (args self)"
    by (auto simp: get_dataset_def split: sum.splits)
next
  fix idxs input_ids output_ids
  assume f: "fetch dataset idxs = Inr (input_ids, output_ids)"
  note b = fetch_bounds [OF assms f]
  show "\<forall>row \<in> set input_ids. int (length row) \<le> ds_max_input_len dataset" by (rule b(1))
  show "\<forall>row \<in> set output_ids. int (length row) \<le> ds_max_output_len dataset" by (rule b(2))
  fix self :: "('e, 'o) summarizer"
  note k = forward_kwargs_bounds [OF b, of self]
  from k show "\<forall>row \<in> set (kw_input_ids (forward_kwargs self input_ids output_ids)).
                  int (length row) \<le> ds_max_input_len dataset" by blast
  from k show "\<forall>row \<in> set (kw_attention_mask (forward_kwargs self input_ids output_ids)).
                  int (length row) \<le> ds_max_input_len dataset" by blast
  from k show "\<forall>row \<in> set (kw_decoder_input_ids (forward_kwargs self input_ids output_ids)).
                  int (length row) \<le> ds_max_output_len dataset" by blast
  from k show "\<forall>row \<in> set (kw_decoder_attention_mask (forward_kwargs self input_ids output_ids)).
                  int (length row) \<le> ds_max_output_len dataset" by blast
  from k show "\<forall>row \<in> set (kw_labels (forward_kwargs self input_ids output_ids)).
                  int (length row) \<le> ds_max_output_len dataset" by blast
qed

lemma example_tokenizer_truncates: "truncates example_tokenizer"
  by (auto simp: truncates_def example_tokenizer_def split: if_splits)

lemma example_getitem:
  "getitem example_dataset 0 = Inr ([97, 98, 99], [97, 98])"
  "getitem example_dataset (- 1) = Inr ([97], [120, 121])"
  by (simp_all add: getitem_def example_dataset_def example_tokenizer_def call_def Let_def)

lemma example_fetch:
  "fetch example_dataset [0, - 1] = Inr ([[97, 98, 99], [97, 1, 1]], [[97, 98], [120, 121]])"
  by (simp add: fetch_def example_getitem collate_fn_def pad_sequence_def max_len_of_def)

lemma example_get_dataset: "get_dataset example_summarizer ''train'' = Inr example_dataset"
  by (simp add: get_dataset_def getitem_dict_def example_summarizer_def example_dataset_def
        example_args_def)

theorem getitem_length_bounds_witness:
  "getitem example_dataset 0 = Inr ([97, 98, 99], [97, 98]) \<and>
   ds_max_input_len example_dataset = 3 \<and> ds_max_output_len example_dataset = 2 \<and>
   get_dataset example_summarizer ''train'' = Inr example_dataset \<and>
   fetch example_dataset [0, - 1] = Inr ([[97, 98, 99], [97, 1, 1]], [[97, 98], [120, 121]]) \<and>
   kw_labels (forward_kwargs example_summarizer [[97, 98, 99], [97, 1, 1]] [[97, 98], [120, 121]])
     = [[98], [121]]"
proof -
  have t: "truncates (ds_tokenizer example_dataset)"
    by (simp add: example_dataset_def example_tokenizer_truncates)
  have m: "ds_max_input_len example_dataset = 3 \<and> ds_max_output_len example_dataset = 2"
    by (simp add: example_dataset_def)
  have k: "kw_labels (forward_kwargs example_summarizer [[97, 98, 99], [97, 1, 1]] [[97, 98], [120, 121]])
     = [[98], [121]]"
    by (simp add: forward_kwargs_eq example_summarizer_def example_tokenizer_def)
  show ?thesis
    using getitem_length_bounds [OF t] example_getitem(1) m example_get_dataset example_fetch k
    by blast
qed

subsection \<open>The reduction of the validation metrics\<close>

lemma collect_step_dict:
  "(collect (map step_dict rows) ''vloss'' :: 'e error + real list) = Inr (map (\<lambda>(v, r1, r2, rl). v) rows)"
  "(collect (map step_dict rows) ''rouge1'' :: 'e error + real list) = Inr (map (\<lambda>(v, r1, r2, rl). r1) rows)"
  "(collect (map step_dict rows) ''rouge2'' :: 'e error + real list) = Inr (map (\<lambda>(v, r1, r2, rl). r2) rows)"
  "(collect (map step_dict rows) ''rougeL'' :: 'e error + real list) = Inr (map (\<lambda>(v, r1, r2, rl). rl) rows)"
  by (induction rows; simp add: step_dict_def getitem_dict_def split: prod.splits)+

lemma epoch_metric_eq:
  fixes lib :: "'e libraries"
  assumes "(collect outputs name :: 'e error + real list) = Inr xs" and "xs \<noteq> []"
    and "use_ddp (trainer self) \<longrightarrow> all_reduce_peers lib name = Inr (peers name)"
  shows "epoch_metric lib self outputs name =
           Inr (if use_ddp (trainer self)
                then (arithmetic_mean xs + sum_list (peers name)) / real_of_int (world_size (trainer self))
                else arithmetic_mean xs)"
  using assms by (simp add: epoch_metric_def stack_mean_def arithmetic_mean_def call_def)


lemma validation_epoch_end_eq:
  assumes "epoch_metric lib self outputs ''vloss'' = Inr m1"
    and "epoch_metric lib self outputs ''rouge1'' = Inr m2"
    and "epoch_metric lib self outputs ''rouge2'' = Inr m3"
    and "epoch_metric lib self outputs ''rougeL'' = Inr m4"
  shows "validation_epoch_end lib self outputs =
           Inr [(''avg_val_loss'', Num m1),
                (''log'', Dict [(''vloss'', m1), (''rouge1'', m2), (''rouge2'', m3), (''rougeL'', m4)]),
                (''progress_bar'', Dict [(''vloss'', m1), (''rouge1'', m2), (''rouge2'', m3), (''rougeL'', m4)])]"
  using assms by (simp add: validation_epoch_end_def getitem_dict_def Let_def)

text \<open>
  C5.  For a non-empty list of outputs of validation steps, \<^verbatim>\<open>validation_epoch_end\<close>
  returns, for each of \<^verbatim>\<open>vloss\<close>, \<^verbatim>\<open>rouge1\<close>, \<^verbatim>\<open>rouge2\<close> and \<^verbatim>\<open>rougeL\<close>, what
  is to be reported: the arithmetic mean of the per-batch values, and with distributed
  training (where the \<^verbatim>\<open>all_reduce\<close> of each metric succeeds) the sum of the workers'
  means over \<^verbatim>\<open>world_size\<close>.  The validation loss is also returned as
  \<^verbatim>\<open>avg_val_loss\<close>.
\<close>

theorem validation_epoch_end_means:
  fixes lib :: "'e libraries" and self :: "('e, 'o) summarizer"
  assumes "rows \<noteq> []"
    and "use_ddp (trainer self) \<longrightarrow>
           0 < world_size (trainer self) \<and>
           (\<forall>name \<in> {''vloss'', ''rouge1'', ''rouge2'', ''rougeL''}.
              all_reduce_peers lib name = Inr (peers name))"
  shows "validation_epoch_end lib self (map step_dict rows) =
           Inr [(''avg_val_loss'', Num (reported lib self peers ''vloss'' (map (\<lambda>(v, r1, r2, rl). v) rows))),
                (''log'',
                 Dict [(''vloss'', reported lib self peers ''vloss'' (map (\<lambda>(v, r1, r2, rl). v) rows)),
                       (''rouge1'', reported lib self peers ''rouge1'' (map (\<lambda>(v, r1, r2, rl). r1) rows)),
                       (''rouge2'', reported lib self peers ''rouge2'' (map (\<lambda>(v, r1, r2, rl). r2) rows)),
                       (''rougeL'', reported lib self peers ''rougeL'' (map (\<lambda>(v, r1, r2, rl). rl) rows))]),
                (''progress_bar'',
                 Dict [(''vloss'', reported lib self peers ''vloss'' (map (\<lambda>(v, r1, r2, rl). v) rows)),
                       (''rouge1'', reported lib self peers ''rouge1'' (map (\<lambda>(v, r1, r2, rl). r1) rows)),
                       (''rouge2'', reported lib self peers ''rouge2'' (map (\<lambda>(v, r1, r2, rl). r2) rows)),
                       (''rougeL'', reported lib self peers ''rougeL'' (map (\<lambda>(v, r1, r2, rl). rl) rows))])]"
proof -
  have p: "use_ddp (trainer self) \<longrightarrow> all_reduce_peers lib name = Inr (peers name)"
    if "name \<in> {''vloss'', ''rouge1'', ''rouge2'', ''rougeL''}" for name
    using assms(2) that by blast
  have ne: "map f rows \<noteq> []" for f :: "real \<times> real \<times> real \<times> real \<Rightarrow> real"
    using assms(1) by simp
  have e1: "epoch_metric lib self (map step_dict rows) ''vloss'' =
              Inr (reported lib self peers ''vloss'' (map (\<lambda>(v, r1, r2, rl). v) rows))"
    unfolding reported_def
    by (rule epoch_metric_eq [where peers = peers and xs = "map (\<lambda>(v, r1, r2, rl). v) rows"])
       (simp_all add: collect_step_dict assms(1) p)
  have e2: "epoch_metric lib self (map step_dict rows) ''rouge1'' =
              Inr (reported lib self peers ''rouge1'' (map (\<lambda>(v, r1, r2, rl). r1) rows))"
    unfolding reported_def
    by (rule epoch_metric_eq [where peers = peers and xs = "map (\<lambda>(v, r1, r2, rl). r1) rows"])
       (simp_all add: collect_step_dict assms(1) p)
  have e3: "epoch_metric lib self (map step_dict rows) ''rouge2'' =
              Inr (reported lib self peers ''rouge2'' (map (\<lambda>(v, r1, r2, rl). r2) rows))"
    unfolding reported_def
    by (rule epoch_metric_eq [where peers = peers and xs = "map (\<lambda>(v, r1, r2, rl). r2) rows"])
       (simp_all add: collect_step_dict assms(1) p)
  have e4: "epoch_metric lib self (map step_dict rows) ''rougeL'' =
              Inr (reported lib self peers ''rougeL'' (map (\<lambda>(v, r1, r2, rl). rl) rows))"
    unfolding reported_def
    by (rule epoch_metric_eq [where peers = peers and xs = "map (\<lambda>(v, r1, r2, rl). rl) rows"])
       (simp_all add: collect_step_dict assms(1) p)
  show ?thesis by (rule validation_epoch_end_eq [OF e1 e2 e3 e4])
qed

theorem validation_epoch_end_means_witness:
  "validation_epoch_end example_libraries example_summarizer
       (map step_dict [(1, 1 / 2, 1 / 4, 1), (3, 1 / 2, 3 / 4, 0)]) =
     Inr [(''avg_val_loss'', Num 3),
          (''log'', Dict [(''vloss'', 3), (''rouge1'', 1 / 2), (''rouge2'', 1 / 2), (''rougeL'', 1 / 2)]),
          (''progress_bar'',
           Dict [(''vloss'', 3), (''rouge1'', 1 / 2), (''rouge2'', 1 / 2), (''rougeL'', 1 / 2)])]"
  using validation_epoch_end_means
          [of "[(1, 1 / 2, 1 / 4, 1), (3, 1 / 2, 3 / 4, 0)]" example_summarizer example_libraries
              "\<lambda>name. if name = ''vloss'' then [4] else [1 / 2]"]
  by (simp add: reported_def arithmetic_mean_def example_summarizer_def example_trainer_def
        example_libraries_def)

subsection \<open>The validation step\<close>

lemma rouge_loop_Inr:
  "map2 sc (map fst pairs) (map snd pairs) = map Inr scores \<Longrightarrow>
   rouge_loop sc pairs (a, b, c) =
     Inr (a + sum_list (map (\<lambda>s. fmeasure (key_rouge1 s)) scores),
          b + sum_list (map (\<lambda>s. fmeasure (key_rouge2 s)) scores),
          c + sum_list (map (\<lambda>s. fmeasure (key_rougeL s)) scores))"
proof (induction pairs arbitrary: scores a b c)
  case Nil
  then show ?case by simp
next
  case (Cons p pairs)
  obtain ref pred where p: "p = (ref, pred)" by (cases p)
  from Cons.prems p obtain s rest where
    scores: "scores = s # rest" and s: "sc ref pred = Inr s"
    and rest: "map2 sc (map fst pairs) (map snd pairs) = map Inr rest"
    by (cases scores) auto
  show ?case
    using Cons.IH [OF rest] by (simp add: p s scores call_def add.assoc)
qed

lemma rouge_loop_error:
  "rouge_loop sc pairs acc = Inl err \<Longrightarrow> \<exists>e. err = Framework e"
proof (induction pairs arbitrary: acc)
  case Nil
  then show ?case by simp
next
  case (Cons p pairs)
  obtain ref pred where p: "p = (ref, pred)" by (cases p)
  obtain a b c where acc: "acc = (a, b, c)" by (cases acc)
  from Cons.prems show ?case
    unfolding p acc by (auto simp: call_Inl_iff split: sum.splits dest: Cons.IH)
qed

lemma rouge_loop_first_failure:
  "i < length pairs \<Longrightarrow>
   \<forall>k < i. \<exists>s. sc (fst (pairs ! k)) (snd (pairs ! k)) = Inr s \<Longrightarrow>
   sc (fst (pairs ! i)) (snd (pairs ! i)) = Inl e \<Longrightarrow>
   rouge_loop sc pairs acc = Inl (Framework e)"
proof (induction pairs arbitrary: i acc)
  case Nil
  then show ?case by simp
next
  case (Cons p pairs)
  obtain ref pred where p: "p = (ref, pred)" by (cases p)
  obtain a b c where acc: "acc = (a, b, c)" by (cases acc)
  show ?case
  proof (cases i)
    case 0
    with Cons.prems show ?thesis by (simp add: p acc call_def)
  next
    case (Suc i')
    from Cons.prems(2) Suc obtain s where s: "sc ref pred = Inr s"
      by (auto simp: p)
    have "rouge_loop sc pairs acc' = Inl (Framework e)" for acc'
      using Cons.prems Suc by (intro Cons.IH [of i']) auto
    then show ?thesis by (simp add: p acc s call_def)
  qed
qed

lemma validation_step_unfold:
  "validation_step lib self (input_ids, output_ids) =
     (case model_call (model self) (forward_kwargs self input_ids output_ids) of
        Inl e \<Rightarrow> Inl (Framework e)
      | Inr outputs \<Rightarrow>
          (case generate (model self) input_ids
                  (kw_attention_mask (forward_kwargs self input_ids output_ids)) True
                  (max_output_len (args self)) of
             Inl e \<Rightarrow> Inl (Framework e)
           | Inr generated_ids \<Rightarrow>
               (case batch_decode (tokenizer self) generated_ids of
                  Inl e \<Rightarrow> Inl (Framework e)
                | Inr generated_str \<Rightarrow>
                    (case batch_decode (tokenizer self) output_ids of
                       Inl e \<Rightarrow> Inl (Framework e)
                     | Inr gold_str \<Rightarrow>
                         (case rouge_loop (scorer_score lib) (zip gold_str generated_str) (0, 0, 0) of
                            Inl e \<Rightarrow> Inl e
                          | Inr totals \<Rightarrow>
                              if generated_str = [] then Inl ZeroDivisionError
                              else Inr (step_dict
                                     (fst outputs,
                                      fst totals / real (length generated_str),
                                      fst (snd totals) / real (length generated_str),
                                      snd (snd totals) / real (length generated_str))))))))"
  by (simp add: validation_step_def forward_def call_def Let_def truediv_def step_dict_def
        forward_kwargs_eq attention_mask_eq
      split: sum.splits prod.splits)


lemma arithmetic_mean_constant:
  assumes "xs \<noteq> []" and "\<forall>x \<in> set xs. f x = s"
  shows "arithmetic_mean (map f xs) = s"
proof -
  have "map f xs = replicate (length xs) s"
    using assms(2) by (simp add: map_replicate_const [symmetric] cong: map_cong)
  then have "sum_list (map f xs) = real (length xs) * s"
    by (simp add: sum_list_replicate)
  with assms(1) show ?thesis by (simp add: arithmetic_mean_def)
qed

text \<open>
  C6.  When the calls of the libraries return, with one generated string and one reference
  string for each of the \<open>N > 0\<close> examples of the batch, the validation step returns,
  for each ROUGE metric, the arithmetic mean of the \<open>N\<close> per-example F-measures; where
  the per-example F-measures of a metric are all equal to \<open>s\<close>, it returns \<open>s\<close>.
\<close>

theorem validation_step_batch_mean:
  assumes "one_per_row self"
    and "length output_ids = length input_ids" and "input_ids \<noteq> []"
    and "forward self input_ids output_ids = Inr outputs"
    and "generate (model self) input_ids
           (kw_attention_mask (forward_kwargs self input_ids output_ids)) True
           (max_output_len (args self)) = Inr generated_ids"
    and "batch_decode (tokenizer self) generated_ids = Inr generated_str"
    and "batch_decode (tokenizer self) output_ids = Inr gold_str"
    and "map2 (scorer_score lib) gold_str generated_str = map Inr scores"
  shows "length scores = length input_ids \<and>
         (\<exists>result.
            validation_step lib self (input_ids, output_ids) = Inr result \<and>
            map_of result ''vloss'' = Some (fst outputs) \<and>
            map_of result ''rouge1'' = Some (arithmetic_mean (map (\<lambda>s. fmeasure (key_rouge1 s)) scores)) \<and>
            map_of result ''rouge2'' = Some (arithmetic_mean (map (\<lambda>s. fmeasure (key_rouge2 s)) scores)) \<and>
            map_of result ''rougeL'' = Some (arithmetic_mean (map (\<lambda>s. fmeasure (key_rougeL s)) scores)) \<and>
            (\<forall>s. (\<forall>x \<in> set scores. fmeasure (key_rouge1 x) = s) \<longrightarrow> map_of result ''rouge1'' = Some s) \<and>
            (\<forall>s. (\<forall>x \<in> set scores. fmeasure (key_rouge2 x) = s) \<longrightarrow> map_of result ''rouge2'' = Some s) \<and>
            (\<forall>s. (\<forall>x \<in> set scores. fmeasure (key_rougeL x) = s) \<longrightarrow> map_of result ''rougeL'' = Some s))"
proof -
  from assms(1,5) have "length generated_ids = length input_ids"
    unfolding one_per_row_def by blast
  moreover from assms(1,6) have "length generated_str = length generated_ids"
    unfolding one_per_row_def by blast
  moreover from assms(1,7) have "length gold_str = length output_ids"
    unfolding one_per_row_def by blast
  ultimately have lens: "length generated_str = length input_ids" "length gold_str = length input_ids"
    using assms(2) by simp_all
  from assms(8) have "length (map2 (scorer_score lib) gold_str generated_str) = length scores"
    by simp
  with lens have n: "length scores = length input_ids" by simp
  with assms(3) have ne: "scores \<noteq> []" "generated_str \<noteq> []"
    using lens by auto
  have pairs: "map2 (scorer_score lib) (map fst (zip gold_str generated_str))
                 (map snd (zip gold_str generated_str)) = map Inr scores"
    using assms(8) lens by simp
  define result where
    "result = step_dict (fst outputs,
                 arithmetic_mean (map (\<lambda>s. fmeasure (key_rouge1 s)) scores),
                 arithmetic_mean (map (\<lambda>s. fmeasure (key_rouge2 s)) scores),
                 arithmetic_mean (map (\<lambda>s. fmeasure (key_rougeL s)) scores))"
  from assms(4) obtain rest where
    m: "model_call (model self) (forward_kwargs self input_ids output_ids) = Inr (fst outputs, rest)"
    by (cases outputs) (auto simp: forward_def call_Inr_iff)
  have v: "validation_step lib self (input_ids, output_ids) = Inr result"
    unfolding validation_step_unfold result_def
    using ne lens n
    by (simp add: m assms(5,6,7) rouge_loop_Inr [OF pairs] arithmetic_mean_def)
  have keys: "map_of result ''vloss'' = Some (fst outputs)"
    "map_of result ''rouge1'' = Some (arithmetic_mean (map (\<lambda>s. fmeasure (key_rouge1 s)) scores))"
    "map_of result ''rouge2'' = Some (arithmetic_mean (map (\<lambda>s. fmeasure (key_rouge2 s)) scores))"
    "map_of result ''rougeL'' = Some (arithmetic_mean (map (\<lambda>s. fmeasure (key_rougeL s)) scores))"
    by (simp_all add: result_def step_dict_def)
  have c: "\<forall>s. (\<forall>x \<in> set scores. f x = s) \<longrightarrow> arithmetic_mean (map f scores) = s"
    for f :: "score_dict \<Rightarrow> real"
    using arithmetic_mean_constant [OF ne(1)] by blast
  show ?thesis
    using n v keys c [of "\<lambda>s. fmeasure (key_rouge1 s)"] c [of "\<lambda>s. fmeasure (key_rouge2 s)"]
      c [of "\<lambda>s. fmeasure (key_rougeL s)"]
    by auto
qed


lemma example_one_per_row: "one_per_row example_summarizer"
  by (auto simp: one_per_row_def example_summarizer_def example_model_def example_tokenizer_def)

lemma example_forward:
  "forward example_summarizer [[97, 98, 99], [97, 1, 1]] [[97, 98], [120, 121]] = Inr (2, ())"
  by (simp add: forward_def forward_kwargs_eq call_def example_summarizer_def example_model_def
        example_tokenizer_def)

lemma example_generate:
  "generate (model example_summarizer) [[97, 98, 99], [97, 1, 1]]
     (kw_attention_mask (forward_kwargs example_summarizer [[97, 98, 99], [97, 1, 1]] [[97, 98], [120, 121]]))
     True (max_output_len (args example_summarizer)) = Inr [[97, 98], [97, 1]]"
  by (simp add: example_summarizer_def example_model_def example_args_def)

lemma example_decode:
  "batch_decode (tokenizer example_summarizer) [[97, 98], [97, 1]] = Inr [''ab'', ''a'']"
  "batch_decode (tokenizer example_summarizer) [[97, 98], [120, 121]] = Inr [''ab'', ''xx'']"
  by (simp_all add: example_summarizer_def example_tokenizer_def)

lemma example_scores:
  "map2 (scorer_score example_libraries) [''ab'', ''xx''] [''ab'', ''a''] =
     map Inr [\<lparr>key_rouge1 = example_score 1, key_rouge2 = example_score 1, key_rougeL = example_score 1\<rparr>,
              \<lparr>key_rouge1 = example_score (1 / 2), key_rouge2 = example_score (1 / 2),
                key_rougeL = example_score (1 / 2)\<rparr>]"
  by (simp add: example_libraries_def)

lemma example_validation_step:
  "validation_step example_libraries example_summarizer
     ([[97, 98, 99], [97, 1, 1]], [[97, 98], [120, 121]]) =
   Inr [(''vloss'', 2), (''rouge1'', 3 / 4), (''rouge2'', 3 / 4), (''rougeL'', 3 / 4)]"
proof -
  have m: "model_call (model example_summarizer)
             (forward_kwargs example_summarizer [[97, 98, 99], [97, 1, 1]] [[97, 98], [120, 121]])
           = Inr (2, ())"
    using example_forward by (simp add: forward_def call_Inr_iff)
  show ?thesis
    unfolding validation_step_unfold
    by (simp add: m example_generate example_decode step_dict_def example_libraries_def
          example_score_def call_def)
qed

theorem validation_step_batch_mean_witness:
  "validation_step example_libraries example_summarizer
     ([[97, 98, 99], [97, 1, 1]], [[97, 98], [120, 121]]) =
   Inr [(''vloss'', 2), (''rouge1'', 3 / 4), (''rouge2'', 3 / 4), (''rougeL'', 3 / 4)] \<and>
   arithmetic_mean [1, 1 / 2] = 3 / 4"
proof -
  have a: "arithmetic_mean [1, 1 / 2] = 3 / 4"
    by (simp add: arithmetic_mean_def)
  have l: "length [[97, 98], [120, 121 :: int]] = length [[97, 98, 99], [97, 1, 1 :: int]]"
    and n: "[[97, 98, 99], [97, 1, 1 :: int]] \<noteq> []"
    by simp_all
  note validation_step_batch_mean
         [OF example_one_per_row l n example_forward example_generate example_decode example_scores]
  with example_validation_step a show ?thesis by blast
qed

lemma validation_step_ZeroDivisionError_iff:
  "validation_step lib self (input_ids, output_ids) = Inl ZeroDivisionError \<longleftrightarrow>
     (\<exists>outputs generated_ids gold_str.
        forward self input_ids output_ids = Inr outputs \<and>
        generate (model self) input_ids
          (kw_attention_mask (forward_kwargs self input_ids output_ids)) True
          (max_output_len (args self)) = Inr generated_ids \<and>
        batch_decode (tokenizer self) generated_ids = Inr [] \<and>
        batch_decode (tokenizer self) output_ids = Inr gold_str)"
  unfolding validation_step_unfold forward_def call_Inr_iff
  by (auto split: sum.splits dest: rouge_loop_error)

text \<open>
  C8.  The validation step divides by the number of generated strings and has no guard:
  it fails with \<open>ZeroDivisionError\<close> exactly when the model, the generation and the two
  decodings return and no string was generated.  Where generation returns one sequence
  for each row and decoding one string for each sequence, a non-empty batch never
  fails so, and an empty batch for which those calls return always does.
\<close>

theorem validation_step_division_by_zero:
  assumes "one_per_row self"
  shows "(validation_step lib self (input_ids, output_ids) = Inl ZeroDivisionError \<longleftrightarrow>
            (\<exists>outputs generated_ids gold_str.
               forward self input_ids output_ids = Inr outputs \<and>
               generate (model self) input_ids
                 (kw_attention_mask (forward_kwargs self input_ids output_ids)) True
                 (max_output_len (args self)) = Inr generated_ids \<and>
               batch_decode (tokenizer self) generated_ids = Inr [] \<and>
               batch_decode (tokenizer self) output_ids = Inr gold_str)) \<and>
         (input_ids \<noteq> [] \<longrightarrow>
            validation_step lib self (input_ids, output_ids) \<noteq> Inl ZeroDivisionError) \<and>
         (input_ids = [] \<and>
          (\<exists>outputs. forward self input_ids output_ids = Inr outputs) \<and>
          (\<exists>generated_ids generated_str.
             generate (model self) input_ids
               (kw_attention_mask (forward_kwargs self input_ids output_ids)) True
               (max_output_len (args self)) = Inr generated_ids \<and>
             batch_decode (tokenizer self) generated_ids = Inr generated_str) \<and>
          (\<exists>gold_str. batch_decode (tokenizer self) output_ids = Inr gold_str) \<longrightarrow>
            validation_step lib self (input_ids, output_ids) = Inl ZeroDivisionError)"
proof (intro conjI impI)
  show "validation_step lib self (input_ids, output_ids) = Inl ZeroDivisionError \<longleftrightarrow>
            (\<exists>outputs generated_ids gold_str.
               forward self input_ids output_ids = Inr outputs \<and>
               generate (model self) input_ids
                 (kw_attention_mask (forward_kwargs self input_ids output_ids)) True
                 (max_output_len (args self)) = Inr generated_ids \<and>
               batch_decode (tokenizer self) generated_ids = Inr [] \<and>
               batch_decode (tokenizer self) output_ids = Inr gold_str)"
    by (rule validation_step_ZeroDivisionError_iff)
next
  assume ne: "input_ids \<noteq> []"
  show "validation_step lib self (input_ids, output_ids) \<noteq> Inl ZeroDivisionError"
  proof
    assume "validation_step lib self (input_ids, output_ids) = Inl ZeroDivisionError"
    then obtain generated_ids where
      g: "generate (model self) input_ids
            (kw_attention_mask (forward_kwargs self input_ids output_ids)) True
            (max_output_len (args self)) = Inr generated_ids"
      and d: "batch_decode (tokenizer self) generated_ids = Inr []"
      unfolding validation_step_ZeroDivisionError_iff by blast
    from assms g have "length generated_ids = length input_ids"
      unfolding one_per_row_def by blast
    moreover from assms d have "length ([] :: string list) = length generated_ids"
      unfolding one_per_row_def by blast
    ultimately show False using ne by simp
  qed
next
  assume a: "input_ids = [] \<and>
          (\<exists>outputs. forward self input_ids output_ids = Inr outputs) \<and>
          (\<exists>generated_ids generated_str.
             generate (model self) input_ids
               (kw_attention_mask (forward_kwargs self input_ids output_ids)) True
               (max_output_len (args self)) = Inr generated_ids \<and>
             batch_decode (tokenizer self) generated_ids = Inr generated_str) \<and>
          (\<exists>gold_str. batch_decode (tokenizer self) output_ids = Inr gold_str)"
  then obtain generated_ids generated_str where
    g: "generate (model self) input_ids
            (kw_attention_mask (forward_kwargs self input_ids output_ids)) True
            (max_output_len (args self)) = Inr generated_ids"
    and d: "batch_decode (tokenizer self) generated_ids = Inr generated_str"
    by blast
  from assms g have "length generated_ids = length input_ids"
    unfolding one_per_row_def by blast
  moreover from assms d have "length generated_str = length generated_ids"
    unfolding one_per_row_def by blast
  ultimately have "generated_str = []" using a by simp
  with a g d show "validation_step lib self (input_ids, output_ids) = Inl ZeroDivisionError"
    unfolding validation_step_ZeroDivisionError_iff by blast
qed

lemma example_empty_batch:
  "validation_step example_libraries example_summarizer ([], []) = Inl ZeroDivisionError"
  unfolding validation_step_unfold
  by (simp add: forward_kwargs_eq example_summarizer_def example_model_def example_tokenizer_def)

theorem validation_step_division_by_zero_witness:
  "validation_step example_libraries example_summarizer ([], []) = Inl ZeroDivisionError \<and>
   validation_step example_libraries example_summarizer
     ([[97, 98, 99], [97, 1, 1]], [[97, 98], [120, 121]]) =
   Inr [(''vloss'', 2), (''rouge1'', 3 / 4), (''rouge2'', 3 / 4), (''rougeL'', 3 / 4)]"
  using validation_step_division_by_zero
          [OF example_one_per_row, of example_libraries "[[97, 98, 99], [97, 1, 1]]" "[[97, 98], [120, 121]]"]
    validation_step_division_by_zero [OF example_one_per_row, of example_libraries "[]" "[]"]
    example_empty_batch example_validation_step
  by blast

subsection \<open>Padding added by the collator\<close>

lemma added_padding_excluded_pad_1:
  assumes "pad_token_id (tokenizer self) = 1"
  shows "added_padding_excluded self batch"
proof (cases "batch = []")
  case True
  then show ?thesis by (simp add: added_padding_excluded_def collate_fn_def)
next
  case False
  have gf: "length (fst (batch ! i)) \<le> max_len_of (map fst batch)" if "i < length batch" for i
    using that by (intro max_len_of_ge) simp
  have gs: "length (snd (batch ! i)) \<le> max_len_of (map snd batch)" if "i < length batch" for i
    using that by (intro max_len_of_ge) simp
  show ?thesis
    unfolding added_padding_excluded_def collate_fn_Inr [OF False]
    using gf gs
    by (auto simp: forward_kwargs_eq assms Let_def counted_in_loss_def ignore_index_def
          nth_butlast nth_tl padded_nth nth_append)
qed

lemma added_padding_not_excluded:
  assumes "pad_token_id (tokenizer self) \<noteq> 1"
  shows "\<not> added_padding_excluded self [([5, 6], [5, 6, 7]), ([5], [5])]"
  using assms
  by (simp add: added_padding_excluded_def collate_fn_def pad_sequence_def max_len_of_def
        forward_kwargs_eq Let_def counted_in_loss_def ignore_index_def)

text \<open>
  C7.  The collator pads with \<open>1\<close> whatever the tokenizer, and \<^verbatim>\<open>forward\<close> compares
  with the tokenizer's pad token: the positions the collator adds are excluded from the
  attention and from the loss in every batch exactly when the tokenizer's pad token is
  \<open>1\<close>.
\<close>

theorem padding_excluded_iff_pad_token_1:
  "(\<forall>batch. added_padding_excluded self batch) \<longleftrightarrow> pad_token_id (tokenizer self) = 1"
  using added_padding_excluded_pad_1 [of self] added_padding_not_excluded [of self]
  by blast

theorem padding_excluded_iff_pad_token_1_witness:
  "added_padding_excluded example_summarizer [([5, 6], [5, 6, 7]), ([5], [5])] \<and>
   \<not> added_padding_excluded
       (example_summarizer\<lparr>tokenizer := example_tokenizer\<lparr>pad_token_id := 0\<rparr>\<rparr>)
       [([5, 6], [5, 6, 7]), ([5], [5])]"
proof -
  have p1: "pad_token_id (tokenizer example_summarizer) = 1"
    by (simp add: example_summarizer_def example_tokenizer_def)
  have p0: "pad_token_id (tokenizer (example_summarizer\<lparr>tokenizer := example_tokenizer\<lparr>pad_token_id := 0\<rparr>\<rparr>)) \<noteq> 1"
    by simp
  from padding_excluded_iff_pad_token_1 [of example_summarizer] p1
  have "added_padding_excluded example_summarizer [([5, 6], [5, 6, 7]), ([5], [5])]"
    by blast
  moreover have "\<not> added_padding_excluded
       (example_summarizer\<lparr>tokenizer := example_tokenizer\<lparr>pad_token_id := 0\<rparr>\<rparr>)
       [([5, 6], [5, 6, 7]), ([5], [5])]"
    by (rule added_padding_not_excluded [OF p0])
  ultimately show ?thesis by simp
qed

subsection \<open>Checkpoints\<close>

lemma validation_epoch_end_Inr:
  assumes "validation_epoch_end lib self outputs = Inr result"
  shows "\<exists>avg logs. result = [(''avg_val_loss'', Num avg), (''log'', Dict logs), (''progress_bar'', Dict logs)] \<and>
                    map_of logs ''vloss'' = Some avg"
  using assms
  by (auto simp: validation_epoch_end_def Let_def getitem_dict_def split: sum.splits option.splits)

lemma kept_before_dropped:
  assumes "k \<in> set (kept_checkpoints cb history)" and "d \<in> set (dropped_checkpoints cb history)"
  shows "rank_key cb (snd k) \<le> rank_key cb (snd d)"
proof -
  let ?r = "ranked cb history" and ?n = "nat (save_top_k cb)"
  have "sorted (map (\<lambda>c. rank_key cb (snd c)) ?r)"
    by (simp add: ranked_def)
  then have "sorted (map (\<lambda>c. rank_key cb (snd c)) (take ?n ?r) @ map (\<lambda>c. rank_key cb (snd c)) (drop ?n ?r))"
    by (simp add: map_append [symmetric] del: map_append)
  then show ?thesis
    using assms by (auto simp: sorted_append kept_checkpoints_def dropped_checkpoints_def)
qed

lemma kept_and_dropped:
  "set (kept_checkpoints cb history) \<union> set (dropped_checkpoints cb history) = set (candidates cb history)"
  "length (kept_checkpoints cb history) + length (dropped_checkpoints cb history) = length (candidates cb history)"
proof -
  have "set (take n xs) \<union> set (drop n xs) = set xs" for n and xs :: "(nat \<times> real) list"
    by (metis append_take_drop_id set_append)
  then show "set (kept_checkpoints cb history) \<union> set (dropped_checkpoints cb history) = set (candidates cb history)"
    by (simp add: kept_checkpoints_def dropped_checkpoints_def ranked_def)
  show "length (kept_checkpoints cb history) + length (dropped_checkpoints cb history) = length (candidates cb history)"
    by (simp add: kept_checkpoints_def dropped_checkpoints_def ranked_def)
qed

lemma validation_epoch_end_avg_val_loss:
  fixes lib :: "'e libraries" and self :: "('e, 'o) summarizer"
  assumes "rows \<noteq> []"
    and "use_ddp (trainer self) \<longrightarrow>
           0 < world_size (trainer self) \<and>
           (\<forall>name \<in> {''vloss'', ''rouge1'', ''rouge2'', ''rougeL''}.
              all_reduce_peers lib name = Inr (peers name))"
  shows "\<exists>logs. validation_epoch_end lib self (map step_dict rows) =
           Inr [(''avg_val_loss'', Num (reported lib self peers ''vloss'' (map (\<lambda>(v, r1, r2, rl). v) rows))),
                (''log'', Dict logs), (''progress_bar'', Dict logs)]"
proof -
  have p: "use_ddp (trainer self) \<longrightarrow> all_reduce_peers lib name = Inr (peers name)"
    if "name \<in> {''vloss'', ''rouge1'', ''rouge2'', ''rougeL''}" for name
    using assms(2) that by blast
  have e1: "epoch_metric lib self (map step_dict rows) ''vloss'' =
              Inr (reported lib self peers ''vloss'' (map (\<lambda>(v, r1, r2, rl). v) rows))"
    unfolding reported_def
    by (rule epoch_metric_eq [where peers = peers and xs = "map (\<lambda>(v, r1, r2, rl). v) rows"])
       (simp_all add: collect_step_dict assms(1) p)
  have e2: "\<exists>m. epoch_metric lib self (map step_dict rows) ''rouge1'' = Inr m"
    using epoch_metric_eq [where peers = peers and xs = "map (\<lambda>(v, r1, r2, rl). r1) rows"
                             and lib = lib and self = self and name = "''rouge1''"
                             and outputs = "map step_dict rows"]
    by (simp add: collect_step_dict assms(1) p)
  have e3: "\<exists>m. epoch_metric lib self (map step_dict rows) ''rouge2'' = Inr m"
    using epoch_metric_eq [where peers = peers and xs = "map (\<lambda>(v, r1, r2, rl). r2) rows"
                             and lib = lib and self = self and name = "''rouge2''"
                             and outputs = "map step_dict rows"]
    by (simp add: collect_step_dict assms(1) p)
  have e4: "\<exists>m. epoch_metric lib self (map step_dict rows) ''rougeL'' = Inr m"
    using epoch_metric_eq [where peers = peers and xs = "map (\<lambda>(v, r1, r2, rl). rl) rows"
                             and lib = lib and self = self and name = "''rougeL''"
                             and outputs = "map step_dict rows"]
    by (simp add: collect_step_dict assms(1) p)
  from e2 e3 e4 obtain m2 m3 m4 where
    "epoch_metric lib self (map step_dict rows) ''rouge1'' = Inr m2"
    "epoch_metric lib self (map step_dict rows) ''rouge2'' = Inr m3"
    "epoch_metric lib self (map step_dict rows) ''rougeL'' = Inr m4"
    by blast
  from validation_epoch_end_eq [OF e1 this] show ?thesis by blast
qed

lemma main_runs_trainer:
  assumes "new_summarizer rt a = Inr built"
    and "load_dataset rt ''scientific_papers'' ''arxiv'' = Inr ds"
  shows "main rt a =
        (if test a then call (trainer_test rt (trainer_arguments a) (set_datasets rt built ds))
         else (case call (trainer_fit rt (trainer_arguments a) (set_datasets rt built ds)) of
                 Inl e \<Rightarrow> Inl e
               | Inr m1 \<Rightarrow> call (trainer_test rt (trainer_arguments a) m1)))"
  using assms by (simp add: main_def call_def Let_def)

text \<open>
  C9.  When the summarizer is built and the dataset loaded, \<^verbatim>\<open>main\<close> runs the
  trainer's \<^verbatim>\<open>fit\<close> (unless only testing) and \<^verbatim>\<open>test\<close> with its keyword arguments,
  and unless checkpointing is disabled these carry a checkpoint callback that monitors
  \<^verbatim>\<open>avg_val_loss\<close> with mode \<^verbatim>\<open>min\<close> and \<^verbatim>\<open>save_top_k = 5\<close>.  The value the
  callback monitors in the result of \<^verbatim>\<open>validation_epoch_end\<close> is the reported average
  validation loss: the mean of the per-batch losses, reduced over the workers with
  distributed training; in any result it is the value logged as \<^verbatim>\<open>vloss\<close>.  With the
  retention of the callback as the specification describes it, at most five checkpoints
  are kept, no kept checkpoint has a larger validation loss than a dropped one, and every
  candidate is either kept or dropped.
\<close>

theorem checkpoints_ranked_by_avg_val_loss:
  fixes rt :: "('x, 'm, 'd) runtime" and lib :: "'e libraries" and self :: "('e, 'o) summarizer"
  shows
  "(new_summarizer rt a = Inr built \<and> load_dataset rt ''scientific_papers'' ''arxiv'' = Inr ds \<longrightarrow>
      main rt a =
        (if test a then call (trainer_test rt (trainer_arguments a) (set_datasets rt built ds))
         else (case call (trainer_fit rt (trainer_arguments a) (set_datasets rt built ds)) of
                 Inl e \<Rightarrow> Inl e
               | Inr m1 \<Rightarrow> call (trainer_test rt (trainer_arguments a) m1)))) \<and>
   tk_checkpoint_callback (trainer_arguments a) =
     (if disable_checkpointing a then None else Some (checkpoint_callback a)) \<and>
   monitor (checkpoint_callback a) = ''avg_val_loss'' \<and>
   mode (checkpoint_callback a) = ''min'' \<and>
   save_top_k (checkpoint_callback a) = 5 \<and>
   (rows \<noteq> [] \<and>
    (use_ddp (trainer self) \<longrightarrow>
       0 < world_size (trainer self) \<and>
       (\<forall>name \<in> {''vloss'', ''rouge1'', ''rouge2'', ''rougeL''}.
          all_reduce_peers lib name = Inr (peers name))) \<longrightarrow>
      (\<exists>result.
         validation_epoch_end lib self (map step_dict rows) = Inr result \<and>
         monitored (checkpoint_callback a) result =
           Some (reported lib self peers ''vloss'' (map (\<lambda>(v, r1, r2, rl). v) rows)))) \<and>
   (\<forall>outputs result.
      validation_epoch_end lib self outputs = Inr result \<longrightarrow>
      (\<exists>avg logs.
         monitored (checkpoint_callback a) result = Some avg \<and>
         map_of result ''log'' = Some (Dict logs) \<and>
         map_of logs ''vloss'' = Some avg)) \<and>
   length (kept_checkpoints (checkpoint_callback a) history) \<le> 5 \<and>
   (\<forall>k \<in> set (kept_checkpoints (checkpoint_callback a) history).
      \<forall>c \<in> set (dropped_checkpoints (checkpoint_callback a) history). snd k \<le> snd c) \<and>
   set (kept_checkpoints (checkpoint_callback a) history) \<union>
     set (dropped_checkpoints (checkpoint_callback a) history) =
     set (candidates (checkpoint_callback a) history)"
proof -
  have c1: "(new_summarizer rt a = Inr built \<and> load_dataset rt ''scientific_papers'' ''arxiv'' = Inr ds \<longrightarrow>
      main rt a =
        (if test a then call (trainer_test rt (trainer_arguments a) (set_datasets rt built ds))
         else (case call (trainer_fit rt (trainer_arguments a) (set_datasets rt built ds)) of
                 Inl e \<Rightarrow> Inl e
               | Inr m1 \<Rightarrow> call (trainer_test rt (trainer_arguments a) m1))))"
    using main_runs_trainer [of rt a built ds] by blast
  have c2: "tk_checkpoint_callback (trainer_arguments a) =
     (if disable_checkpointing a then None else Some (checkpoint_callback a))"
    by (simp add: trainer_arguments_def)
  have c3: "monitor (checkpoint_callback a) = ''avg_val_loss''"
    and c4: "mode (checkpoint_callback a) = ''min''"
    and c5: "save_top_k (checkpoint_callback a) = 5"
    by (simp_all add: checkpoint_callback_def)
  have c6: "(rows \<noteq> [] \<and>
    (use_ddp (trainer self) \<longrightarrow>
       0 < world_size (trainer self) \<and>
       (\<forall>name \<in> {''vloss'', ''rouge1'', ''rouge2'', ''rougeL''}.
          all_reduce_peers lib name = Inr (peers name))) \<longrightarrow>
      (\<exists>result.
         validation_epoch_end lib self (map step_dict rows) = Inr result \<and>
         monitored (checkpoint_callback a) result =
           Some (reported lib self peers ''vloss'' (map (\<lambda>(v, r1, r2, rl). v) rows))))"
  proof
    assume h: "rows \<noteq> [] \<and>
      (use_ddp (trainer self) \<longrightarrow>
         0 < world_size (trainer self) \<and>
         (\<forall>name \<in> {''vloss'', ''rouge1'', ''rouge2'', ''rougeL''}.
            all_reduce_peers lib name = Inr (peers name)))"
    then have r: "rows \<noteq> []"
      and d: "use_ddp (trainer self) \<longrightarrow>
         0 < world_size (trainer self) \<and>
         (\<forall>name \<in> {''vloss'', ''rouge1'', ''rouge2'', ''rougeL''}.
            all_reduce_peers lib name = Inr (peers name))"
      by blast+
    from validation_epoch_end_avg_val_loss [OF r d] obtain logs where
      v: "validation_epoch_end lib self (map step_dict rows) =
           Inr [(''avg_val_loss'', Num (reported lib self peers ''vloss'' (map (\<lambda>(v, r1, r2, rl). v) rows))),
                (''log'', Dict logs), (''progress_bar'', Dict logs)]"
      by blast
    have "monitored (checkpoint_callback a)
            [(''avg_val_loss'', Num (reported lib self peers ''vloss'' (map (\<lambda>(v, r1, r2, rl). v) rows))),
             (''log'', Dict logs), (''progress_bar'', Dict logs)] =
          Some (reported lib self peers ''vloss'' (map (\<lambda>(v, r1, r2, rl). v) rows))"
      by (simp add: monitored_def checkpoint_callback_def)
    with v show "\<exists>result.
         validation_epoch_end lib self (map step_dict rows) = Inr result \<and>
         monitored (checkpoint_callback a) result =
           Some (reported lib self peers ''vloss'' (map (\<lambda>(v, r1, r2, rl). v) rows))"
      by simp
  qed
  have c7: "(\<forall>outputs result.
      validation_epoch_end lib self outputs = Inr result \<longrightarrow>
      (\<exists>avg logs.
         monitored (checkpoint_callback a) result = Some avg \<and>
         map_of result ''log'' = Some (Dict logs) \<and>
         map_of logs ''vloss'' = Some avg))"
  proof (intro allI impI)
    fix outputs result
    assume "validation_epoch_end lib self outputs = Inr result"
    from validation_epoch_end_Inr [OF this] obtain avg logs where
      "result = [(''avg_val_loss'', Num avg), (''log'', Dict logs), (''progress_bar'', Dict logs)]"
      and "map_of logs ''vloss'' = Some avg"
      by blast
    then show "\<exists>avg logs.
         monitored (checkpoint_callback a) result = Some avg \<and>
         map_of result ''log'' = Some (Dict logs) \<and>
         map_of logs ''vloss'' = Some avg"
      by (simp add: monitored_def checkpoint_callback_def)
  qed
  have c8: "length (kept_checkpoints (checkpoint_callback a) history) \<le> 5"
    by (simp add: kept_checkpoints_def checkpoint_callback_def)
  have c9: "\<forall>k \<in> set (kept_checkpoints (checkpoint_callback a) history).
      \<forall>c \<in> set (dropped_checkpoints (checkpoint_callback a) history). snd k \<le> snd c"
  proof (intro ballI)
    fix k c
    assume "k \<in> set (kept_checkpoints (checkpoint_callback a) history)"
      and "c \<in> set (dropped_checkpoints (checkpoint_callback a) history)"
    from kept_before_dropped [OF this] show "snd k \<le> snd c"
      by (simp add: rank_key_def checkpoint_callback_def)
  qed
  have c10: "set (kept_checkpoints (checkpoint_callback a) history) \<union>
     set (dropped_checkpoints (checkpoint_callback a) history) =
     set (candidates (checkpoint_callback a) history)"
    by (rule kept_and_dropped(1))
  show ?thesis
    by (intro conjI c1 c2 c3 c4 c5 c6 c7 c8 c9 c10)
qed

lemma example_main:
  "new_summarizer example_runtime example_args = Inr 0"
  "load_dataset example_runtime ''scientific_papers'' ''arxiv'' = Inr 7"
  "main example_runtime example_args = Inr 13"
  "main example_runtime (example_args\<lparr>disable_checkpointing := True\<rparr>) = Inr 8"
  by (simp_all add: main_def call_def Let_def example_runtime_def example_args_def
        trainer_arguments_def checkpoint_callback_def)

lemma example_epoch_result:
  "validation_epoch_end example_libraries example_summarizer (map step_dict [(2, 1, 1, 1)]) =
     Inr [(''avg_val_loss'', Num 3),
          (''log'', Dict [(''vloss'', 3), (''rouge1'', 3 / 4), (''rouge2'', 3 / 4), (''rougeL'', 3 / 4)]),
          (''progress_bar'',
           Dict [(''vloss'', 3), (''rouge1'', 3 / 4), (''rouge2'', 3 / 4), (''rougeL'', 3 / 4)])]"
  by (simp add: validation_epoch_end_def epoch_metric_def stack_mean_def step_dict_def
        getitem_dict_def call_def Let_def example_libraries_def example_summarizer_def
        example_trainer_def)

lemma example_kept:
  "kept_checkpoints (checkpoint_callback example_args)
     [[(''avg_val_loss'', Num 6)], [(''avg_val_loss'', Num 3)], [(''avg_val_loss'', Num 5)],
      [(''avg_val_loss'', Num 1)], [(''avg_val_loss'', Num 4)], [(''avg_val_loss'', Num 2)]]
   = [(3, 1), (5, 2), (1, 3), (4, 4), (2, 5)]"
  "dropped_checkpoints (checkpoint_callback example_args)
     [[(''avg_val_loss'', Num 6)], [(''avg_val_loss'', Num 3)], [(''avg_val_loss'', Num 5)],
      [(''avg_val_loss'', Num 1)], [(''avg_val_loss'', Num 4)], [(''avg_val_loss'', Num 2)]]
   = [(0, 6)]"
  by (simp_all add: kept_checkpoints_def dropped_checkpoints_def ranked_def candidates_def
        monitored_def rank_key_def checkpoint_callback_def upt_rec)

theorem checkpoints_ranked_by_avg_val_loss_witness:
  "main example_runtime example_args = Inr 13 \<and>
   main example_runtime (example_args\<lparr>disable_checkpointing := True\<rparr>) = Inr 8 \<and>
   validation_epoch_end example_libraries example_summarizer (map step_dict [(2, 1, 1, 1)]) =
     Inr [(''avg_val_loss'', Num 3),
          (''log'', Dict [(''vloss'', 3), (''rouge1'', 3 / 4), (''rouge2'', 3 / 4), (''rougeL'', 3 / 4)]),
          (''progress_bar'',
           Dict [(''vloss'', 3), (''rouge1'', 3 / 4), (''rouge2'', 3 / 4), (''rougeL'', 3 / 4)])] \<and>
   monitored (checkpoint_callback example_args)
     [(''avg_val_loss'', Num 3),
      (''log'', Dict [(''vloss'', 3), (''rouge1'', 3 / 4), (''rouge2'', 3 / 4), (''rougeL'', 3 / 4)]),
      (''progress_bar'',
       Dict [(''vloss'', 3), (''rouge1'', 3 / 4), (''rouge2'', 3 / 4), (''rougeL'', 3 / 4)])] = Some 3 \<and>
   kept_checkpoints (checkpoint_callback example_args)
     [[(''avg_val_loss'', Num 6)], [(''avg_val_loss'', Num 3)], [(''avg_val_loss'', Num 5)],
      [(''avg_val_loss'', Num 1)], [(''avg_val_loss'', Num 4)], [(''avg_val_loss'', Num 2)]]
   = [(3, 1), (5, 2), (1, 3), (4, 4), (2, 5)] \<and>
   dropped_checkpoints (checkpoint_callback example_args)
     [[(''avg_val_loss'', Num 6)], [(''avg_val_loss'', Num 3)], [(''avg_val_loss'', Num 5)],
      [(''avg_val_loss'', Num 1)], [(''avg_val_loss'', Num 4)], [(''avg_val_loss'', Num 2)]]
   = [(0, 6)]"
proof -
  note t = checkpoints_ranked_by_avg_val_loss
             [where a = example_args and rt = example_runtime and built = 0 and ds = 7
                and lib = example_libraries and self = example_summarizer
                and rows = "[(2, 1, 1, 1)]"
                and peers = "\<lambda>name. if name = ''vloss'' then [4] else [1 / 2]"
                and history = "[[(''avg_val_loss'', Num 6)], [(''avg_val_loss'', Num 3)], [(''avg_val_loss'', Num 5)],
      [(''avg_val_loss'', Num 1)], [(''avg_val_loss'', Num 4)], [(''avg_val_loss'', Num 2)]]"]
  have r: "reported example_libraries example_summarizer
             (\<lambda>name. if name = ''vloss'' then [4] else [1 / 2]) ''vloss''
             (map (\<lambda>(v, r1, r2, rl). v) [(2, 1, 1, 1)]) = 3"
    by (simp add: reported_def arithmetic_mean_def example_summarizer_def example_trainer_def)
  have h: "[(2 :: real, 1 :: real, 1 :: real, 1 :: real)] \<noteq> [] \<and>
    (use_ddp (trainer example_summarizer) \<longrightarrow>
       0 < world_size (trainer example_summarizer) \<and>
       (\<forall>name \<in> {''vloss'', ''rouge1'', ''rouge2'', ''rougeL''}.
          all_reduce_peers example_libraries name =
            Inr (if name = ''vloss'' then [4] else [1 / 2])))"
    by (simp add: example_summarizer_def example_trainer_def example_libraries_def)
  note c = t [THEN conjunct2, THEN conjunct2, THEN conjunct2, THEN conjunct2, THEN conjunct2,
               THEN conjunct1]
  note e = c [THEN mp, OF h]
  from e have m: "monitored (checkpoint_callback example_args)
     [(''avg_val_loss'', Num 3),
      (''log'', Dict [(''vloss'', 3), (''rouge1'', 3 / 4), (''rouge2'', 3 / 4), (''rougeL'', 3 / 4)]),
      (''progress_bar'',
       Dict [(''vloss'', 3), (''rouge1'', 3 / 4), (''rouge2'', 3 / 4), (''rougeL'', 3 / 4)])] = Some 3"
    unfolding r example_epoch_result by simp
  from example_main(3,4) example_epoch_result m example_kept show ?thesis
    by simp
qed

subsection \<open>Errors\<close>

lemma training_step_errors:
  "model_call (model self) (forward_kwargs self input_ids output_ids) = Inl e \<Longrightarrow>
     training_step lib self (input_ids, output_ids) = Inl (Framework e)"
  "model_call (model self) (forward_kwargs self input_ids output_ids) = Inr outputs \<Longrightarrow>
   optimizer_lr (trainer self) = Inl e \<Longrightarrow>
     training_step lib self (input_ids, output_ids) = Inl (Framework e)"
  "model_call (model self) (forward_kwargs self input_ids output_ids) = Inr outputs \<Longrightarrow>
   optimizer_lr (trainer self) = Inr group_lr \<Longrightarrow>
   cuda_memory_allocated lib = Inl e \<Longrightarrow>
     training_step lib self (input_ids, output_ids) = Inl (Framework e)"
  by (simp_all add: training_step_def forward_def call_def)

lemma validation_step_errors:
  "model_call (model self) (forward_kwargs self input_ids output_ids) = Inl e \<Longrightarrow>
     validation_step lib self (input_ids, output_ids) = Inl (Framework e)"
  "model_call (model self) (forward_kwargs self input_ids output_ids) = Inr outputs \<Longrightarrow>
   generate (model self) input_ids (kw_attention_mask (forward_kwargs self input_ids output_ids))
     True (max_output_len (args self)) = Inl e \<Longrightarrow>
     validation_step lib self (input_ids, output_ids) = Inl (Framework e)"
  "model_call (model self) (forward_kwargs self input_ids output_ids) = Inr outputs \<Longrightarrow>
   generate (model self) input_ids (kw_attention_mask (forward_kwargs self input_ids output_ids))
     True (max_output_len (args self)) = Inr generated_ids \<Longrightarrow>
   batch_decode (tokenizer self) generated_ids = Inl e \<Longrightarrow>
     validation_step lib self (input_ids, output_ids) = Inl (Framework e)"
  "model_call (model self) (forward_kwargs self input_ids output_ids) = Inr outputs \<Longrightarrow>
   generate (model self) input_ids (kw_attention_mask (forward_kwargs self input_ids output_ids))
     True (max_output_len (args self)) = Inr generated_ids \<Longrightarrow>
   batch_decode (tokenizer self) generated_ids = Inr generated_str \<Longrightarrow>
   batch_decode (tokenizer self) output_ids = Inl e \<Longrightarrow>
     validation_step lib self (input_ids, output_ids) = Inl (Framework e)"
  by (simp_all add: validation_step_unfold)

lemma validation_step_scorer_error:
  assumes "model_call (model self) (forward_kwargs self input_ids output_ids) = Inr outputs"
    and "generate (model self) input_ids (kw_attention_mask (forward_kwargs self input_ids output_ids))
           True (max_output_len (args self)) = Inr generated_ids"
    and "batch_decode (tokenizer self) generated_ids = Inr generated_str"
    and "batch_decode (tokenizer self) output_ids = Inr gold_str"
    and "i < length gold_str" and "i < length generated_str"
    and "\<forall>k < i. \<exists>s. scorer_score lib (gold_str ! k) (generated_str ! k) = Inr s"
    and "scorer_score lib (gold_str ! i) (generated_str ! i) = Inl e"
  shows "validation_step lib self (input_ids, output_ids) = Inl (Framework e)"
proof -
  have "rouge_loop (scorer_score lib) (zip gold_str generated_str) (0, 0, 0) = Inl (Framework e)"
    using assms(5-8) by (intro rouge_loop_first_failure [of i]) auto
  then show ?thesis
    by (simp add: validation_step_unfold assms(1-4))
qed

lemma metrics_loop_first_failure:
  "i < length names \<Longrightarrow>
   \<forall>k < i. \<exists>m. epoch_metric lib self outputs (names ! k) = Inr m \<Longrightarrow>
   epoch_metric lib self outputs (names ! i) = Inl err \<Longrightarrow>
   metrics_loop lib self outputs names metrics = Inl err"
proof (induction names arbitrary: i metrics)
  case Nil
  then show ?case by simp
next
  case (Cons name names)
  show ?case
  proof (cases i)
    case 0
    with Cons.prems show ?thesis by simp
  next
    case (Suc i')
    from Cons.prems(2) Suc obtain m where m: "epoch_metric lib self outputs name = Inr m"
      by auto
    have "metrics_loop lib self outputs names metrics' = Inl err" for metrics'
      using Cons.prems Suc by (intro Cons.IH [of i']) auto
    then show ?thesis by (simp add: m)
  qed
qed

lemma epoch_metric_all_reduce_error:
  fixes lib :: "'e libraries"
  assumes "(collect outputs name :: 'e error + real list) = Inr xs" and "xs \<noteq> []"
    and "use_ddp (trainer self)" and "all_reduce_peers lib name = Inl e"
  shows "epoch_metric lib self outputs name = Inl (Framework e)"
  using assms by (simp add: epoch_metric_def stack_mean_def call_def)

lemma collect_step_dict_key:
  assumes "name \<in> set [''vloss'', ''rouge1'', ''rouge2'', ''rougeL'']"
  shows "\<exists>xs. (collect (map step_dict rows) name :: 'e error + real list) = Inr xs \<and>
              length xs = length rows"
proof -
  from assms consider "name = ''vloss''" | "name = ''rouge1''" | "name = ''rouge2''" | "name = ''rougeL''"
    by auto
  then show ?thesis
    by cases (simp_all add: collect_step_dict)
qed

lemma validation_epoch_end_all_reduce_error:
  fixes lib :: "'e libraries"
  assumes "rows \<noteq> []" and "use_ddp (trainer self)"
    and "i < 4"
    and "\<forall>k < i. \<exists>peers. all_reduce_peers lib ([''vloss'', ''rouge1'', ''rouge2'', ''rougeL''] ! k) = Inr peers"
    and "all_reduce_peers lib ([''vloss'', ''rouge1'', ''rouge2'', ''rougeL''] ! i) = Inl e"
  shows "validation_epoch_end lib self (map step_dict rows) = Inl (Framework e)"
proof -
  let ?names = "[''vloss'', ''rouge1'', ''rouge2'', ''rougeL'']"
  have ok: "\<exists>m. epoch_metric lib self (map step_dict rows) (?names ! k) = Inr m" if "k < i" for k
  proof -
    from that assms(3) have "?names ! k \<in> set ?names" by (intro nth_mem) simp
    from collect_step_dict_key [OF this, of rows] obtain xs where
      xs: "(collect (map step_dict rows) (?names ! k) :: 'e error + real list) = Inr xs"
      and "length xs = length rows" by blast
    with assms(1) have ne: "xs \<noteq> []" by auto
    from assms(4) that obtain peers where "all_reduce_peers lib (?names ! k) = Inr peers"
      by blast
    then have "use_ddp (trainer self) \<longrightarrow> all_reduce_peers lib (?names ! k) = Inr ((\<lambda>_. peers) (?names ! k))"
      by simp
    from epoch_metric_eq [OF xs ne this] show ?thesis by blast
  qed
  have bad: "epoch_metric lib self (map step_dict rows) (?names ! i) = Inl (Framework e)"
  proof -
    from assms(3) have "?names ! i \<in> set ?names" by (intro nth_mem) simp
    from collect_step_dict_key [OF this, of rows] obtain xs where
      xs: "(collect (map step_dict rows) (?names ! i) :: 'e error + real list) = Inr xs"
      and "length xs = length rows" by blast
    with assms(1) have ne: "xs \<noteq> []" by auto
    show ?thesis by (rule epoch_metric_all_reduce_error [OF xs ne assms(2,5)])
  qed
  have "metrics_loop lib self (map step_dict rows) ?names [] = Inl (Framework e)"
    using assms(3) ok bad by (intro metrics_loop_first_failure [of i]) auto
  then show ?thesis by (simp add: validation_epoch_end_def)
qed

lemma main_errors:
  "new_summarizer rt a = Inl e \<Longrightarrow> main rt a = Inl (Framework e)"
  "new_summarizer rt a = Inr m \<Longrightarrow> load_dataset rt ''scientific_papers'' ''arxiv'' = Inl e \<Longrightarrow>
     main rt a = Inl (Framework e)"
  "new_summarizer rt a = Inr m \<Longrightarrow> load_dataset rt ''scientific_papers'' ''arxiv'' = Inr d \<Longrightarrow>
   \<not> test a \<Longrightarrow> trainer_fit rt (trainer_arguments a) (set_datasets rt m d) = Inl e \<Longrightarrow>
     main rt a = Inl (Framework e)"
  "new_summarizer rt a = Inr m \<Longrightarrow> load_dataset rt ''scientific_papers'' ''arxiv'' = Inr d \<Longrightarrow>
   \<not> test a \<Longrightarrow> trainer_fit rt (trainer_arguments a) (set_datasets rt m d) = Inr m' \<Longrightarrow>
   trainer_test rt (trainer_arguments a) m' = Inl e \<Longrightarrow>
     main rt a = Inl (Framework e)"
  "new_summarizer rt a = Inr m \<Longrightarrow> load_dataset rt ''scientific_papers'' ''arxiv'' = Inr d \<Longrightarrow>
   test a \<Longrightarrow> trainer_test rt (trainer_arguments a) (set_datasets rt m d) = Inl e \<Longrightarrow>
     main rt a = Inl (Framework e)"
  by (simp_all add: main_def call_def Let_def)


text \<open>
  C10.  No step catches an error.  Whenever a call of a library raises \<open>e\<close> (the calls
  before it having returned), the step that made the call fails with that same \<open>e\<close>:
  the model, the learning rate and the memory counter in the training step; the model,
  the generation, the two decodings and the scorer (at the first pair it fails on) in the
  validation and the test step; the \<^verbatim>\<open>all_reduce\<close> (at the first metric it fails on) in
  the end of a validation or test epoch; and in \<^verbatim>\<open>main\<close> the construction of the
  summarizer, the loading of the dataset, \<^verbatim>\<open>fit\<close> and \<^verbatim>\<open>test\<close>, which ends the run.
\<close>

theorem errors_propagate_unchanged:
  fixes lib :: "'e libraries" and self :: "('e, 'o) summarizer" and rt :: "('e, 'm, 'd) runtime"
  shows
  "(model_call (model self) (forward_kwargs self input_ids output_ids) = Inl e \<longrightarrow>
      training_step lib self (input_ids, output_ids) = Inl (Framework e) \<and>
      validation_step lib self (input_ids, output_ids) = Inl (Framework e) \<and>
      test_step lib self (input_ids, output_ids) = Inl (Framework e)) \<and>
   (model_call (model self) (forward_kwargs self input_ids output_ids) = Inr outputs \<and>
      optimizer_lr (trainer self) = Inl e \<longrightarrow>
      training_step lib self (input_ids, output_ids) = Inl (Framework e)) \<and>
   (model_call (model self) (forward_kwargs self input_ids output_ids) = Inr outputs \<and>
      optimizer_lr (trainer self) = Inr group_lr \<and>
      cuda_memory_allocated lib = Inl e \<longrightarrow>
      training_step lib self (input_ids, output_ids) = Inl (Framework e)) \<and>
   (model_call (model self) (forward_kwargs self input_ids output_ids) = Inr outputs \<and>
      generate (model self) input_ids (kw_attention_mask (forward_kwargs self input_ids output_ids))
        True (max_output_len (args self)) = Inl e \<longrightarrow>
      validation_step lib self (input_ids, output_ids) = Inl (Framework e) \<and>
      test_step lib self (input_ids, output_ids) = Inl (Framework e)) \<and>
   (model_call (model self) (forward_kwargs self input_ids output_ids) = Inr outputs \<and>
      generate (model self) input_ids (kw_attention_mask (forward_kwargs self input_ids output_ids))
        True (max_output_len (args self)) = Inr generated_ids \<and>
      batch_decode (tokenizer self) generated_ids = Inl e \<longrightarrow>
      validation_step lib self (input_ids, output_ids) = Inl (Framework e) \<and>
      test_step lib self (input_ids, output_ids) = Inl (Framework e)) \<and>
   (model_call (model self) (forward_kwargs self input_ids output_ids) = Inr outputs \<and>
      generate (model self) input_ids (kw_attention_mask (forward_kwargs self input_ids output_ids))
        True (max_output_len (args self)) = Inr generated_ids \<and>
      batch_decode (tokenizer self) generated_ids = Inr generated_str \<and>
      batch_decode (tokenizer self) output_ids = Inl e \<longrightarrow>
      validation_step lib self (input_ids, output_ids) = Inl (Framework e) \<and>
      test_step lib self (input_ids, output_ids) = Inl (Framework e)) \<and>
   (model_call (model self) (forward_kwargs self input_ids output_ids) = Inr outputs \<and>
      generate (model self) input_ids (kw_attention_mask (forward_kwargs self input_ids output_ids))
        True (max_output_len (args self)) = Inr generated_ids \<and>
      batch_decode (tokenizer self) generated_ids = Inr generated_str \<and>
      batch_decode (tokenizer self) output_ids = Inr gold_str \<and>
      i < length gold_str \<and>
      i < length generated_str \<and>
      (\<forall>k < i. \<exists>s. scorer_score lib (gold_str ! k) (generated_str ! k) = Inr s) \<and>
      scorer_score lib (gold_str ! i) (generated_str ! i) = Inl e \<longrightarrow>
      validation_step lib self (input_ids, output_ids) = Inl (Framework e) \<and>
      test_step lib self (input_ids, output_ids) = Inl (Framework e)) \<and>
   (rows \<noteq> [] \<and>
      use_ddp (trainer self) \<and>
      n < 4 \<and>
      (\<forall>k < n. \<exists>peers. all_reduce_peers lib ([''vloss'', ''rouge1'', ''rouge2'', ''rougeL''] ! k) = Inr peers) \<and>
      all_reduce_peers lib ([''vloss'', ''rouge1'', ''rouge2'', ''rougeL''] ! n) = Inl e \<longrightarrow>
      validation_epoch_end lib self (map step_dict rows) = Inl (Framework e) \<and>
      test_epoch_end lib self (map step_dict rows) = Inl (Framework e)) \<and>
   (validation_epoch_end lib self epoch_outputs = Inl err \<longrightarrow>
      test_epoch_end lib self epoch_outputs = Inl err) \<and>
   (new_summarizer rt a = Inl e \<longrightarrow>
      main rt a = Inl (Framework e)) \<and>
   (new_summarizer rt a = Inr m \<and>
      load_dataset rt ''scientific_papers'' ''arxiv'' = Inl e \<longrightarrow>
      main rt a = Inl (Framework e)) \<and>
   (new_summarizer rt a = Inr m \<and>
      load_dataset rt ''scientific_papers'' ''arxiv'' = Inr d \<and>
      \<not> test a \<and>
      trainer_fit rt (trainer_arguments a) (set_datasets rt m d) = Inl e \<longrightarrow>
      main rt a = Inl (Framework e)) \<and>
   (new_summarizer rt a = Inr m \<and>
      load_dataset rt ''scientific_papers'' ''arxiv'' = Inr d \<and>
      \<not> test a \<and>
      trainer_fit rt (trainer_arguments a) (set_datasets rt m d) = Inr m2 \<and>
      trainer_test rt (trainer_arguments a) m2 = Inl e \<longrightarrow>
      main rt a = Inl (Framework e)) \<and>
   (new_summarizer rt a = Inr m \<and>
      load_dataset rt ''scientific_papers'' ''arxiv'' = Inr d \<and>
      test a \<and>
      trainer_test rt (trainer_arguments a) (set_datasets rt m d) = Inl e \<longrightarrow>
      main rt a = Inl (Framework e))"
proof -
  have c1:
    "(model_call (model self) (forward_kwargs self input_ids output_ids) = Inl e \<longrightarrow>
        training_step lib self (input_ids, output_ids) = Inl (Framework e) \<and>
        validation_step lib self (input_ids, output_ids) = Inl (Framework e) \<and>
        test_step lib self (input_ids, output_ids) = Inl (Framework e))"
    by (auto simp: test_step_def intro: training_step_errors(1) validation_step_errors(1))
  have c2:
    "(model_call (model self) (forward_kwargs self input_ids output_ids) = Inr outputs \<and>
        optimizer_lr (trainer self) = Inl e \<longrightarrow>
        training_step lib self (input_ids, output_ids) = Inl (Framework e))"
    by (auto simp: test_step_def intro: training_step_errors(2))
  have c3:
    "(model_call (model self) (forward_kwargs self input_ids output_ids) = Inr outputs \<and>
        optimizer_lr (trainer self) = Inr group_lr \<and>
        cuda_memory_allocated lib = Inl e \<longrightarrow>
        training_step lib self (input_ids, output_ids) = Inl (Framework e))"
    by (auto simp: test_step_def intro: training_step_errors(3))
  have c4:
    "(model_call (model self) (forward_kwargs self input_ids output_ids) = Inr outputs \<and>
        generate (model self) input_ids (kw_attention_mask (forward_kwargs self input_ids output_ids))
          True (max_output_len (args self)) = Inl e \<longrightarrow>
        validation_step lib self (input_ids, output_ids) = Inl (Framework e) \<and>
        test_step lib self (input_ids, output_ids) = Inl (Framework e))"
    by (auto simp: test_step_def intro: validation_step_errors(2))
  have c5:
    "(model_call (model self) (forward_kwargs self input_ids output_ids) = Inr outputs \<and>
        generate (model self) input_ids (kw_attention_mask (forward_kwargs self input_ids output_ids))
          True (max_output_len (args self)) = Inr generated_ids \<and>
        batch_decode (tokenizer self) generated_ids = Inl e \<longrightarrow>
        validation_step lib self (input_ids, output_ids) = Inl (Framework e) \<and>
        test_step lib self (input_ids, output_ids) = Inl (Framework e))"
    by (auto simp: test_step_def intro: validation_step_errors(3))
  have c6:
    "(model_call (model self) (forward_kwargs self input_ids output_ids) = Inr outputs \<and>
        generate (model self) input_ids (kw_attention_mask (forward_kwargs self input_ids output_ids))
          True (max_output_len (args self)) = Inr generated_ids \<and>
        batch_decode (tokenizer self) generated_ids = Inr generated_str \<and>
        batch_decode (tokenizer self) output_ids = Inl e \<longrightarrow>
        validation_step lib self (input_ids, output_ids) = Inl (Framework e) \<and>
        test_step lib self (input_ids, output_ids) = Inl (Framework e))"
    by (auto simp: test_step_def intro: validation_step_errors(4))
  have c7:
    "(model_call (model self) (forward_kwargs self input_ids output_ids) = Inr outputs \<and>
        generate (model self) input_ids (kw_attention_mask (forward_kwargs self input_ids output_ids))
          True (max_output_len (args self)) = Inr generated_ids \<and>
        batch_decode (tokenizer self) generated_ids = Inr generated_str \<and>
        batch_decode (tokenizer self) output_ids = Inr gold_str \<and>
        i < length gold_str \<and>
        i < length generated_str \<and>
        (\<forall>k < i. \<exists>s. scorer_score lib (gold_str ! k) (generated_str ! k) = Inr s) \<and>
        scorer_score lib (gold_str ! i) (generated_str ! i) = Inl e \<longrightarrow>
        validation_step lib self (input_ids, output_ids) = Inl (Framework e) \<and>
        test_step lib self (input_ids, output_ids) = Inl (Framework e))"
    by (auto simp: test_step_def intro: validation_step_scorer_error)
  have c8:
    "(rows \<noteq> [] \<and>
        use_ddp (trainer self) \<and>
        n < 4 \<and>
        (\<forall>k < n. \<exists>peers. all_reduce_peers lib ([''vloss'', ''rouge1'', ''rouge2'', ''rougeL''] ! k) = Inr peers) \<and>
        all_reduce_peers lib ([''vloss'', ''rouge1'', ''rouge2'', ''rougeL''] ! n) = Inl e \<longrightarrow>
        validation_epoch_end lib self (map step_dict rows) = Inl (Framework e) \<and>
        test_epoch_end lib self (map step_dict rows) = Inl (Framework e))"
    using validation_epoch_end_all_reduce_error [of rows self n lib e] by (simp add: test_epoch_end_def)
  have c9:
    "(validation_epoch_end lib self epoch_outputs = Inl err \<longrightarrow>
        test_epoch_end lib self epoch_outputs = Inl err)"
    by (simp add: test_epoch_end_def)
  have c10:
    "(new_summarizer rt a = Inl e \<longrightarrow>
        main rt a = Inl (Framework e))"
    by (auto simp: test_step_def intro: main_errors(1))
  have c11:
    "(new_summarizer rt a = Inr m \<and>
        load_dataset rt ''scientific_papers'' ''arxiv'' = Inl e \<longrightarrow>
        main rt a = Inl (Framework e))"
    by (auto simp: test_step_def intro: main_errors(2))
  have c12:
    "(new_summarizer rt a = Inr m \<and>
        load_dataset rt ''scientific_papers'' ''arxiv'' = Inr d \<and>
        \<not> test a \<and>
        trainer_fit rt (trainer_arguments a) (set_datasets rt m d) = Inl e \<longrightarrow>
        main rt a = Inl (Framework e))"
    by (auto simp: test_step_def intro: main_errors(3))
  have c13:
    "(new_summarizer rt a = Inr m \<and>
        load_dataset rt ''scientific_papers'' ''arxiv'' = Inr d \<and>
        \<not> test a \<and>
        trainer_fit rt (trainer_arguments a) (set_datasets rt m d) = Inr m2 \<and>
        trainer_test rt (trainer_arguments a) m2 = Inl e \<longrightarrow>
        main rt a = Inl (Framework e))"
    by (auto simp: test_step_def intro: main_errors(4))
  have c14:
    "(new_summarizer rt a = Inr m \<and>
        load_dataset rt ''scientific_papers'' ''arxiv'' = Inr d \<and>
        test a \<and>
        trainer_test rt (trainer_arguments a) (set_datasets rt m d) = Inl e \<longrightarrow>
        main rt a = Inl (Framework e))"
    by (auto simp: test_step_def intro: main_errors(5))
  show ?thesis
    by (intro conjI c1 c2 c3 c4 c5 c6 c7 c8 c9 c10 c11 c12 c13 c14)
qed


theorem errors_propagate_unchanged_witness:
  "training_step example_libraries
     (example_summarizer\<lparr>model := example_model\<lparr>model_call := \<lambda>kw. Inl ()\<rparr>\<rparr>) ([[7]], [[0, 2]])
     = Inl (Framework ()) \<and>
   validation_step example_libraries
     (example_summarizer\<lparr>model := example_model\<lparr>model_call := \<lambda>kw. Inl ()\<rparr>\<rparr>) ([[7]], [[0, 2]])
     = Inl (Framework ()) \<and>
   main example_runtime (example_args\<lparr>epochs := - 1\<rparr>) = Inl (Framework ())"
proof -
  have m: "model_call (model (example_summarizer\<lparr>model := example_model\<lparr>model_call := \<lambda>kw. Inl ()\<rparr>\<rparr>))
             (forward_kwargs (example_summarizer\<lparr>model := example_model\<lparr>model_call := \<lambda>kw. Inl ()\<rparr>\<rparr>) [[7]] [[0, 2]]) = Inl ()"
    by simp
  have r: "new_summarizer example_runtime (example_args\<lparr>epochs := - 1\<rparr>) = Inr 0"
    "load_dataset example_runtime ''scientific_papers'' ''arxiv'' = Inr 7"
    "\<not> test (example_args\<lparr>epochs := - 1\<rparr>)"
    "trainer_fit example_runtime (trainer_arguments (example_args\<lparr>epochs := - 1\<rparr>)) (set_datasets example_runtime 0 7) = Inl ()"
    by (simp_all add: example_runtime_def example_args_def trainer_arguments_def)
  note p = errors_propagate_unchanged
             [where self = "(example_summarizer\<lparr>model := example_model\<lparr>model_call := \<lambda>kw. Inl ()\<rparr>\<rparr>)" and lib = example_libraries
                and input_ids = "[[7]]" and output_ids = "[[0, 2]]" and e = "()"
                and rt = example_runtime and a = "(example_args\<lparr>epochs := - 1\<rparr>)" and m = 0 and d = 7]
  from p m have "training_step example_libraries
     (example_summarizer\<lparr>model := example_model\<lparr>model_call := \<lambda>kw. Inl ()\<rparr>\<rparr>) ([[7]], [[0, 2]])
     = Inl (Framework ()) \<and>
   validation_step example_libraries
     (example_summarizer\<lparr>model := example_model\<lparr>model_call := \<lambda>kw. Inl ()\<rparr>\<rparr>) ([[7]], [[0, 2]])
     = Inl (Framework ())"
    by simp
  moreover from p r have "main example_runtime (example_args\<lparr>epochs := - 1\<rparr>) = Inl (Framework ())"
    by simp
  ultimately show ?thesis by simp
qed

end
